theory Spec2Isabelle
  imports Complex_Main
begin

section \<open>Numbers, exceptions and the for statement\<close>

text \<open>
  The solver computes with Python floats. A float is modelled as a finite value (an exact
  real), one of the two infinities, or not-a-number, with the arithmetic and comparisons
  of IEEE 754: \<open>inf - inf\<close>, \<open>0 * inf\<close> and \<open>inf / inf\<close> are \<open>NaN\<close>, arithmetic on \<open>NaN\<close>
  gives \<open>NaN\<close>, every comparison with \<open>NaN\<close> is false, and an infinity equals itself.
  Arithmetic on finite values is exact: rounding, and overflow of a finite computation, are
  outside the model (an evaluator may still return an infinity, as \<open>exp\<close> does on a large
  argument), and so is the sign of zero.
\<close>

datatype pyfloat = Fin real | PInf | NInf | NaN

fun fadd :: "pyfloat \<Rightarrow> pyfloat \<Rightarrow> pyfloat" where
  "fadd (Fin x) (Fin y) = Fin (x + y)"
| "fadd NaN _ = NaN"
| "fadd _ NaN = NaN"
| "fadd PInf NInf = NaN"
| "fadd NInf PInf = NaN"
| "fadd PInf _ = PInf"
| "fadd _ PInf = PInf"
| "fadd NInf _ = NInf"
| "fadd _ NInf = NInf"

fun fsub :: "pyfloat \<Rightarrow> pyfloat \<Rightarrow> pyfloat" where
  "fsub (Fin x) (Fin y) = Fin (x - y)"
| "fsub NaN _ = NaN"
| "fsub _ NaN = NaN"
| "fsub PInf PInf = NaN"
| "fsub NInf NInf = NaN"
| "fsub PInf _ = PInf"
| "fsub _ PInf = NInf"
| "fsub NInf _ = NInf"
| "fsub _ NInf = PInf"

text \<open>An infinity times (or over) a finite value: the sign decides, and \<open>inf * 0\<close> is \<open>NaN\<close>.\<close>

definition signed_inf :: "bool \<Rightarrow> real \<Rightarrow> pyfloat" where
  "signed_inf positive r =
     (if r = 0 then NaN else if (0 < r) = positive then PInf else NInf)"

fun fmul :: "pyfloat \<Rightarrow> pyfloat \<Rightarrow> pyfloat" where
  "fmul (Fin x) (Fin y) = Fin (x * y)"
| "fmul NaN _ = NaN"
| "fmul _ NaN = NaN"
| "fmul PInf PInf = PInf"
| "fmul NInf NInf = PInf"
| "fmul PInf NInf = NInf"
| "fmul NInf PInf = NInf"
| "fmul PInf (Fin y) = signed_inf True y"
| "fmul (Fin x) PInf = signed_inf True x"
| "fmul NInf (Fin y) = signed_inf False y"
| "fmul (Fin x) NInf = signed_inf False x"

text \<open>
  The quotient where the divisor is not zero (a zero divisor is \<open>fdiv\<close>'s business, below).
\<close>

fun fquot :: "pyfloat \<Rightarrow> pyfloat \<Rightarrow> pyfloat" where
  "fquot (Fin x) (Fin y) = Fin (x / y)"
| "fquot NaN _ = NaN"
| "fquot _ NaN = NaN"
| "fquot (Fin x) _ = Fin 0"
| "fquot PInf (Fin y) = (if y < 0 then NInf else PInf)"
| "fquot NInf (Fin y) = (if y < 0 then PInf else NInf)"
| "fquot _ _ = NaN"

fun fabs :: "pyfloat \<Rightarrow> pyfloat" where
  "fabs (Fin x) = Fin \<bar>x\<bar>"
| "fabs PInf = PInf"
| "fabs NInf = PInf"
| "fabs NaN = NaN"

fun flt :: "pyfloat \<Rightarrow> pyfloat \<Rightarrow> bool" where
  "flt (Fin x) (Fin y) = (x < y)"
| "flt NaN _ = False"
| "flt _ NaN = False"
| "flt PInf _ = False"
| "flt _ NInf = False"
| "flt NInf _ = True"
| "flt _ PInf = True"

fun fle :: "pyfloat \<Rightarrow> pyfloat \<Rightarrow> bool" where
  "fle (Fin x) (Fin y) = (x \<le> y)"
| "fle NaN _ = False"
| "fle _ NaN = False"
| "fle NInf _ = True"
| "fle _ PInf = True"
| "fle PInf _ = False"
| "fle _ NInf = False"

fun feq :: "pyfloat \<Rightarrow> pyfloat \<Rightarrow> bool" where
  "feq (Fin x) (Fin y) = (x = y)"
| "feq PInf PInf = True"
| "feq NInf NInf = True"
| "feq _ _ = False"

definition isnan :: "pyfloat \<Rightarrow> bool" where
  "isnan x = (x = NaN)"

text \<open>
  Exceptions are values: the class of the exception and its message. The methods raise
  \<open>ValueError\<close> and \<open>ZeroDivisionError\<close> themselves; a local variable read before its
  first assignment raises \<open>UnboundLocalError\<close> (the message kept is the variable's name);
  an evaluator may raise anything.
\<close>

datatype exn_class = ValueError | ZeroDivisionError | UnboundLocalError | OtherError

datatype exn = Exn (exn_kind: exn_class) (exn_message: string)

text \<open>
  Python's float division raises on a zero divisor. (Values that an evaluator returns as
  numpy floats divide to an infinity or \<open>NaN\<close> with a warning instead. The only division
  that no test of the methods guards is the interpolation of Regula Falsi; the others are
  reached with a divisor that is not zero, where the two kinds of float agree.)
\<close>

definition fdiv :: "pyfloat \<Rightarrow> pyfloat \<Rightarrow> exn + pyfloat" where
  "fdiv x y = (if y = Fin 0 then Inl (Exn ZeroDivisionError ''float division by zero'')
               else Inr (fquot x y))"

text \<open>
  An evaluator is the callable built from the user's expression: a pure function of its
  argument that returns a number (possibly \<open>NaN\<close>) or raises.
\<close>

type_synonym evaluator = "pyfloat \<Rightarrow> exn + pyfloat"

definition bnd :: "exn + 'a \<Rightarrow> ('a \<Rightarrow> exn + 'b) \<Rightarrow> exn + 'b" where
  "bnd m k = (case m of Inl e \<Rightarrow> Inl e | Inr v \<Rightarrow> k v)"

definition lookup_local :: "string \<Rightarrow> 'a option \<Rightarrow> exn + 'a" where
  "lookup_local name v = (case v of None \<Rightarrow> Inl (Exn UnboundLocalError name) | Some x \<Rightarrow> Inr x)"

text \<open>
  One pass through a loop body ends in one of three ways: it falls through to the next
  index with a new state, it returns from the enclosing function, or it raises.
  \<open>for_loop body ks s\<close> is \<^verbatim>\<open>for k in ks: body\<close> started in state \<open>s\<close>, and
  \<open>range1 maxit\<close> is \<^verbatim>\<open>range(1, maxit+1)\<close>.
\<close>

datatype ('s, 'r, 'e) outcome = Continue 's | Return 'r | Raise 'e

fun for_loop :: "(int \<Rightarrow> 's \<Rightarrow> ('s, 'r, 'e) outcome) \<Rightarrow> int list \<Rightarrow> 's \<Rightarrow> ('s, 'r, 'e) outcome" where
  "for_loop body [] s = Continue s"
| "for_loop body (k # ks) s =
     (case body k s of
        Continue s' \<Rightarrow> for_loop body ks s'
      | Return r \<Rightarrow> Return r
      | Raise e \<Rightarrow> Raise e)"

definition range1 :: "int \<Rightarrow> int list" where
  "range1 maxit = [1..maxit]"

text \<open>
  A row is what one iteration prints or appends: index, estimate, function value, error
  metric, and the method's own extra column. The command-line variants print the header
  and then one row per iteration; the web variants append the rows to a list.
\<close>

datatype extra = Interval pyfloat pyfloat | Points pyfloat pyfloat | Deriv pyfloat | GUsed | Delta pyfloat

type_synonym row = "int \<times> pyfloat \<times> pyfloat \<times> pyfloat \<times> extra"

definition row_index :: "row \<Rightarrow> int" where
  "row_index r = fst r"

definition row_estimate :: "row \<Rightarrow> pyfloat" where
  "row_estimate r = fst (snd r)"

definition row_value :: "row \<Rightarrow> pyfloat" where
  "row_value r = fst (snd (snd r))"

definition row_error :: "row \<Rightarrow> pyfloat" where
  "row_error r = fst (snd (snd (snd r)))"

datatype line = Header | Dashes | Printed row

definition print_iter_header :: "line list \<Rightarrow> line list" where
  "print_iter_header out = out @ [Header, Dashes]"

definition print_row :: "line list \<Rightarrow> row \<Rightarrow> line list" where
  "print_row out r = out @ [Printed r]"

fun printed_rows :: "line list \<Rightarrow> row list" where
  "printed_rows [] = []"
| "printed_rows (Printed r # ls) = r # printed_rows ls"
| "printed_rows (_ # ls) = printed_rows ls"

type_synonym result = "pyfloat \<times> pyfloat \<times> int"

text \<open>
  A command-line run is what it printed together with how it ended; a raise inside the
  loop keeps what was printed before it.
\<close>

type_synonym cli_run = "line list \<times> (exn + result)"

type_synonym web_run = "exn + (row list \<times> pyfloat \<times> pyfloat \<times> int)"

definition attempt :: "exn + 'a \<Rightarrow> ('a \<Rightarrow> ('s, 'r, exn) outcome) \<Rightarrow> ('s, 'r, exn) outcome" where
  "attempt m k = (case m of Inl e \<Rightarrow> Raise e | Inr v \<Rightarrow> k v)"

definition attempt_cli ::
  "line list \<Rightarrow> exn + 'a \<Rightarrow> ('a \<Rightarrow> ('s, 'r, line list \<times> exn) outcome) \<Rightarrow> ('s, 'r, line list \<times> exn) outcome" where
  "attempt_cli out m k = (case m of Inl e \<Rightarrow> Raise (out, e) | Inr v \<Rightarrow> k v)"

section \<open>Bisection and Regula Falsi\<close>

text \<open>
  The locals of the two bracketing methods. \<open>c\<close> and \<open>fc\<close> are assigned in the loop;
  the statement after the loop reads them.
\<close>

record bracket =
  a :: pyfloat
  b :: pyfloat
  fa :: pyfloat
  fb :: pyfloat
  c :: "pyfloat option"
  fc :: "pyfloat option"

text \<open>The bracket update shared by all four bracketing loops (\<^verbatim>\<open>if fa*fc < 0: ...\<close>).\<close>

definition update_bracket :: "bracket \<Rightarrow> pyfloat \<Rightarrow> pyfloat \<Rightarrow> bracket" where
  "update_bracket s cv fcv =
     (if flt (fmul (fa s) fcv) (Fin 0)
      then s\<lparr>b := cv, fb := fcv, c := Some cv, fc := Some fcv\<rparr>
      else s\<lparr>a := cv, fa := fcv, c := Some cv, fc := Some fcv\<rparr>)"

definition bisection_body ::
  "evaluator \<Rightarrow> pyfloat \<Rightarrow> int \<Rightarrow> line list \<times> bracket
     \<Rightarrow> (line list \<times> bracket, line list \<times> result, line list \<times> exn) outcome" where
  "bisection_body f tol k = (\<lambda>(out, s).
     let cv = fquot (fadd (a s) (b s)) (Fin 2) in
     attempt_cli out (f cv) (\<lambda>fcv.
       let err = fquot (fabs (fsub (b s) (a s))) (Fin 2);
           out' = print_row out (k, cv, fcv, err, Interval (a s) (b s))
       in if feq (fabs fcv) (Fin 0) \<or> flt err tol then Return (out', (cv, fcv, k))
          else Continue (out', update_bracket s cv fcv)))"

definition bisection :: "evaluator \<Rightarrow> pyfloat \<Rightarrow> pyfloat \<Rightarrow> pyfloat \<Rightarrow> int \<Rightarrow> cli_run" where
  "bisection f av bv tol maxit =
     (case f av of Inl e \<Rightarrow> ([], Inl e) | Inr fav \<Rightarrow>
      case f bv of Inl e \<Rightarrow> ([], Inl e) | Inr fbv \<Rightarrow>
      if isnan fav \<or> isnan fbv
      then ([], Inl (Exn ValueError ''Function returned NaN on interval endpoints.''))
      else if flt (Fin 0) (fmul fav fbv)
      then ([], Inl (Exn ValueError ''f(a) and f(b) must have opposite signs for bisection.''))
      else
        (case for_loop (bisection_body f tol) (range1 maxit)
                (print_iter_header [], \<lparr>a = av, b = bv, fa = fav, fb = fbv, c = Some av, fc = None\<rparr>) of
           Return (out, r) \<Rightarrow> (out, Inr r)
         | Raise (out, e) \<Rightarrow> (out, Inl e)
         | Continue (out, s) \<Rightarrow>
             (out, bnd (lookup_local ''c'' (c s)) (\<lambda>cv.
                   bnd (lookup_local ''fc'' (fc s)) (\<lambda>fcv. Inr (cv, fcv, maxit))))))"

definition bisection_list_body ::
  "evaluator \<Rightarrow> pyfloat \<Rightarrow> int \<Rightarrow> row list \<times> bracket
     \<Rightarrow> (row list \<times> bracket, row list \<times> pyfloat \<times> pyfloat \<times> int, exn) outcome" where
  "bisection_list_body f tol k = (\<lambda>(iters, s).
     let cv = fquot (fadd (a s) (b s)) (Fin 2) in
     attempt (f cv) (\<lambda>fcv.
       let err = fquot (fabs (fsub (b s) (a s))) (Fin 2);
           iters' = iters @ [(k, cv, fcv, err, Interval (a s) (b s))]
       in if feq (fabs fcv) (Fin 0) \<or> flt err tol then Return (iters', cv, fcv, k)
          else Continue (iters', update_bracket s cv fcv)))"

definition bisection_list :: "evaluator \<Rightarrow> pyfloat \<Rightarrow> pyfloat \<Rightarrow> pyfloat \<Rightarrow> int \<Rightarrow> web_run" where
  "bisection_list f av bv tol maxit =
     bnd (f av) (\<lambda>fav. bnd (f bv) (\<lambda>fbv.
       if flt (Fin 0) (fmul fav fbv)
       then Inl (Exn ValueError ''f(a) and f(b) must have opposite signs for bisection.'')
       else
         (case for_loop (bisection_list_body f tol) (range1 maxit)
                 ([], \<lparr>a = av, b = bv, fa = fav, fb = fbv, c = None, fc = None\<rparr>) of
            Return r \<Rightarrow> Inr r
          | Raise e \<Rightarrow> Inl e
          | Continue (iters, s) \<Rightarrow>
              bnd (lookup_local ''c'' (c s)) (\<lambda>cv.
              bnd (lookup_local ''fc'' (fc s)) (\<lambda>fcv. Inr (iters, cv, fcv, maxit))))))"

definition regula_falsi_body ::
  "evaluator \<Rightarrow> pyfloat \<Rightarrow> int \<Rightarrow> line list \<times> bracket
     \<Rightarrow> (line list \<times> bracket, line list \<times> result, line list \<times> exn) outcome" where
  "regula_falsi_body f tol k = (\<lambda>(out, s).
     attempt_cli out
       (fdiv (fsub (fmul (a s) (fb s)) (fmul (b s) (fa s))) (fsub (fb s) (fa s))) (\<lambda>cv.
     attempt_cli out (f cv) (\<lambda>fcv.
       let err = fabs fcv;
           out' = print_row out (k, cv, fcv, err, Interval (a s) (b s))
       in if flt (fabs fcv) tol then Return (out', (cv, fcv, k))
          else Continue (out', update_bracket s cv fcv))))"

definition regula_falsi :: "evaluator \<Rightarrow> pyfloat \<Rightarrow> pyfloat \<Rightarrow> pyfloat \<Rightarrow> int \<Rightarrow> cli_run" where
  "regula_falsi f av bv tol maxit =
     (case f av of Inl e \<Rightarrow> ([], Inl e) | Inr fav \<Rightarrow>
      case f bv of Inl e \<Rightarrow> ([], Inl e) | Inr fbv \<Rightarrow>
      if flt (Fin 0) (fmul fav fbv)
      then ([], Inl (Exn ValueError ''f(a) and f(b) must have opposite signs for Regula Falsi.''))
      else
        (case for_loop (regula_falsi_body f tol) (range1 maxit)
                (print_iter_header [], \<lparr>a = av, b = bv, fa = fav, fb = fbv, c = Some av, fc = None\<rparr>) of
           Return (out, r) \<Rightarrow> (out, Inr r)
         | Raise (out, e) \<Rightarrow> (out, Inl e)
         | Continue (out, s) \<Rightarrow>
             (out, bnd (lookup_local ''c'' (c s)) (\<lambda>cv.
                   bnd (lookup_local ''fc'' (fc s)) (\<lambda>fcv. Inr (cv, fcv, maxit))))))"

definition regula_falsi_list_body ::
  "evaluator \<Rightarrow> pyfloat \<Rightarrow> int \<Rightarrow> row list \<times> bracket
     \<Rightarrow> (row list \<times> bracket, row list \<times> pyfloat \<times> pyfloat \<times> int, exn) outcome" where
  "regula_falsi_list_body f tol k = (\<lambda>(iters, s).
     attempt
       (fdiv (fsub (fmul (a s) (fb s)) (fmul (b s) (fa s))) (fsub (fb s) (fa s))) (\<lambda>cv.
     attempt (f cv) (\<lambda>fcv.
       let err = fabs fcv;
           iters' = iters @ [(k, cv, fcv, err, Interval (a s) (b s))]
       in if flt (fabs fcv) tol then Return (iters', cv, fcv, k)
          else Continue (iters', update_bracket s cv fcv))))"

definition regula_falsi_list :: "evaluator \<Rightarrow> pyfloat \<Rightarrow> pyfloat \<Rightarrow> pyfloat \<Rightarrow> int \<Rightarrow> web_run" where
  "regula_falsi_list f av bv tol maxit =
     bnd (f av) (\<lambda>fav. bnd (f bv) (\<lambda>fbv.
       if flt (Fin 0) (fmul fav fbv)
       then Inl (Exn ValueError ''f(a) and f(b) must have opposite signs for Regula Falsi.'')
       else
         (case for_loop (regula_falsi_list_body f tol) (range1 maxit)
                 ([], \<lparr>a = av, b = bv, fa = fav, fb = fbv, c = None, fc = None\<rparr>) of
            Return r \<Rightarrow> Inr r
          | Raise e \<Rightarrow> Inl e
          | Continue (iters, s) \<Rightarrow>
              bnd (lookup_local ''c'' (c s)) (\<lambda>cv.
              bnd (lookup_local ''fc'' (fc s)) (\<lambda>fcv. Inr (iters, cv, fcv, maxit))))))"

section \<open>Secant\<close>

text \<open>The sliding window of the secant method; \<open>x2\<close> and \<open>fx2\<close> are assigned in the loop.\<close>

record window =
  x0 :: pyfloat
  x1 :: pyfloat
  f0 :: pyfloat
  f1 :: pyfloat
  x2 :: "pyfloat option"
  fx2 :: "pyfloat option"

definition slide :: "window \<Rightarrow> pyfloat \<Rightarrow> pyfloat \<Rightarrow> window" where
  "slide s x2v fx2v =
     \<lparr>x0 = x1 s, x1 = x2v, f0 = f1 s, f1 = fx2v, x2 = Some x2v, fx2 = Some fx2v\<rparr>"

definition secant_body ::
  "evaluator \<Rightarrow> pyfloat \<Rightarrow> int \<Rightarrow> line list \<times> window
     \<Rightarrow> (line list \<times> window, line list \<times> result, line list \<times> exn) outcome" where
  "secant_body f tol k = (\<lambda>(out, s).
     if feq (fsub (f1 s) (f0 s)) (Fin 0)
     then Raise (out, Exn ZeroDivisionError ''Division by zero in Secant method.'')
     else
       attempt_cli out (fdiv (fmul (f1 s) (fsub (x1 s) (x0 s))) (fsub (f1 s) (f0 s))) (\<lambda>q.
         let x2v = fsub (x1 s) q;
             err = fabs (fsub x2v (x1 s))
         in attempt_cli out (f x2v) (\<lambda>fx2v.
              let out' = print_row out (k, x2v, fx2v, err, Points (x0 s) (x1 s))
              in if flt err tol \<or> flt (fabs fx2v) tol then Return (out', (x2v, fx2v, k))
                 else Continue (out', slide s x2v fx2v))))"

definition secant :: "evaluator \<Rightarrow> pyfloat \<Rightarrow> pyfloat \<Rightarrow> pyfloat \<Rightarrow> int \<Rightarrow> cli_run" where
  "secant f x0v x1v tol maxit =
     (let out = print_iter_header [] in
      case f x0v of Inl e \<Rightarrow> (out, Inl e) | Inr f0v \<Rightarrow>
      case f x1v of Inl e \<Rightarrow> (out, Inl e) | Inr f1v \<Rightarrow>
        (case for_loop (secant_body f tol) (range1 maxit)
                (out, \<lparr>x0 = x0v, x1 = x1v, f0 = f0v, f1 = f1v, x2 = None, fx2 = None\<rparr>) of
           Return (out', r) \<Rightarrow> (out', Inr r)
         | Raise (out', e) \<Rightarrow> (out', Inl e)
         | Continue (out', s) \<Rightarrow>
             (out', bnd (lookup_local ''x2'' (x2 s)) (\<lambda>x2v.
                    bnd (lookup_local ''fx2'' (fx2 s)) (\<lambda>fx2v. Inr (x2v, fx2v, maxit))))))"

definition secant_list_body ::
  "evaluator \<Rightarrow> pyfloat \<Rightarrow> int \<Rightarrow> row list \<times> window
     \<Rightarrow> (row list \<times> window, row list \<times> pyfloat \<times> pyfloat \<times> int, exn) outcome" where
  "secant_list_body f tol k = (\<lambda>(iters, s).
     if feq (fsub (f1 s) (f0 s)) (Fin 0)
     then Raise (Exn ZeroDivisionError ''Division by zero in Secant method.'')
     else
       attempt (fdiv (fmul (f1 s) (fsub (x1 s) (x0 s))) (fsub (f1 s) (f0 s))) (\<lambda>q.
         let x2v = fsub (x1 s) q;
             err = fabs (fsub x2v (x1 s))
         in attempt (f x2v) (\<lambda>fx2v.
              let iters' = iters @ [(k, x2v, fx2v, err, Points (x0 s) (x1 s))]
              in if flt err tol \<or> flt (fabs fx2v) tol then Return (iters', x2v, fx2v, k)
                 else Continue (iters', slide s x2v fx2v))))"

definition secant_list :: "evaluator \<Rightarrow> pyfloat \<Rightarrow> pyfloat \<Rightarrow> pyfloat \<Rightarrow> int \<Rightarrow> web_run" where
  "secant_list f x0v x1v tol maxit =
     bnd (f x0v) (\<lambda>f0v. bnd (f x1v) (\<lambda>f1v.
       case for_loop (secant_list_body f tol) (range1 maxit)
               ([], \<lparr>x0 = x0v, x1 = x1v, f0 = f0v, f1 = f1v, x2 = None, fx2 = None\<rparr>) of
         Return r \<Rightarrow> Inr r
       | Raise e \<Rightarrow> Inl e
       | Continue (iters, s) \<Rightarrow>
           bnd (lookup_local ''x2'' (x2 s)) (\<lambda>x2v.
           bnd (lookup_local ''fx2'' (fx2 s)) (\<lambda>fx2v. Inr (iters, x2v, fx2v, maxit)))))"

section \<open>Newton-Raphson\<close>

text \<open>
  The only local that survives an iteration is \<open>xi\<close>. The source evaluates
  \<open>f(x_next)\<close> once for the row, again in the second half of the test (only when the first
  half is false) and again in the \<^verbatim>\<open>return\<close>; the model keeps each evaluation.
\<close>

definition newton_raphson_body ::
  "evaluator \<Rightarrow> evaluator \<Rightarrow> pyfloat \<Rightarrow> int \<Rightarrow> line list \<times> pyfloat
     \<Rightarrow> (line list \<times> pyfloat, line list \<times> result, line list \<times> exn) outcome" where
  "newton_raphson_body f df tol k = (\<lambda>(out, xi).
     attempt_cli out (f xi) (\<lambda>fxi.
     attempt_cli out (df xi) (\<lambda>dfxi.
       if feq dfxi (Fin 0)
       then Raise (out, Exn ZeroDivisionError ''Zero derivative encountered in Newton-Raphson.'')
       else
         attempt_cli out (fdiv fxi dfxi) (\<lambda>q.
           let x_next = fsub xi q;
               err = fabs (fsub x_next xi)
           in attempt_cli out (f x_next) (\<lambda>shown.
                let out' = print_row out (k, x_next, shown, err, Deriv dfxi);
                    ret = attempt_cli out' (f x_next) (\<lambda>v. Return (out', (x_next, v, k)))
                in if flt err tol then ret
                   else attempt_cli out' (f x_next) (\<lambda>v.
                          if flt (fabs v) tol then ret else Continue (out', x_next)))))))"

definition newton_raphson :: "evaluator \<Rightarrow> evaluator \<Rightarrow> pyfloat \<Rightarrow> pyfloat \<Rightarrow> int \<Rightarrow> cli_run" where
  "newton_raphson f df x0v tol maxit =
     (case for_loop (newton_raphson_body f df tol) (range1 maxit) (print_iter_header [], x0v) of
        Return (out, r) \<Rightarrow> (out, Inr r)
      | Raise (out, e) \<Rightarrow> (out, Inl e)
      | Continue (out, xi) \<Rightarrow> (out, bnd (f xi) (\<lambda>v. Inr (xi, v, maxit))))"

definition newton_list_body ::
  "evaluator \<Rightarrow> evaluator \<Rightarrow> pyfloat \<Rightarrow> int \<Rightarrow> row list \<times> pyfloat
     \<Rightarrow> (row list \<times> pyfloat, row list \<times> pyfloat \<times> pyfloat \<times> int, exn) outcome" where
  "newton_list_body f df tol k = (\<lambda>(iters, xi).
     attempt (f xi) (\<lambda>fxi.
     attempt (df xi) (\<lambda>dfxi.
       if feq dfxi (Fin 0)
       then Raise (Exn ZeroDivisionError ''Zero derivative in Newton.'')
       else
         attempt (fdiv fxi dfxi) (\<lambda>q.
           let x_next = fsub xi q;
               err = fabs (fsub x_next xi)
           in attempt (f x_next) (\<lambda>shown.
                let iters' = iters @ [(k, x_next, shown, err, Deriv dfxi)];
                    ret = attempt (f x_next) (\<lambda>v. Return (iters', x_next, v, k))
                in if flt err tol then ret
                   else attempt (f x_next) (\<lambda>v.
                          if flt (fabs v) tol then ret else Continue (iters', x_next)))))))"

definition newton_list :: "evaluator \<Rightarrow> evaluator \<Rightarrow> pyfloat \<Rightarrow> pyfloat \<Rightarrow> int \<Rightarrow> web_run" where
  "newton_list f df x0v tol maxit =
     (case for_loop (newton_list_body f df tol) (range1 maxit) ([], x0v) of
        Return r \<Rightarrow> Inr r
      | Raise e \<Rightarrow> Inl e
      | Continue (iters, xi) \<Rightarrow> bnd (f xi) (\<lambda>v. Inr (iters, xi, v, maxit)))"

section \<open>Fixed point\<close>

text \<open>
  The command-line loop wraps the second evaluation of \<open>g\<close> (the value shown in the row)
  in \<^verbatim>\<open>try ... except Exception\<close> and shows \<open>NaN\<close> when it raises; the web loop evaluates
  it inside the appended tuple, unguarded.
\<close>

definition fixed_point_body ::
  "evaluator \<Rightarrow> pyfloat \<Rightarrow> int \<Rightarrow> line list \<times> pyfloat
     \<Rightarrow> (line list \<times> pyfloat, line list \<times> result, line list \<times> exn) outcome" where
  "fixed_point_body g tol k = (\<lambda>(out, xi).
     attempt_cli out (g xi) (\<lambda>x_next.
       let err = fabs (fsub x_next xi);
           gx = (case g x_next of Inl e \<Rightarrow> NaN | Inr v \<Rightarrow> v);
           out' = print_row out (k, x_next, gx, err, GUsed)
       in if flt err tol then Return (out', (x_next, gx, k))
          else Continue (out', x_next)))"

definition fixed_point :: "evaluator \<Rightarrow> pyfloat \<Rightarrow> pyfloat \<Rightarrow> int \<Rightarrow> cli_run" where
  "fixed_point g x0v tol maxit =
     (case for_loop (fixed_point_body g tol) (range1 maxit) (print_iter_header [], x0v) of
        Return (out, r) \<Rightarrow> (out, Inr r)
      | Raise (out, e) \<Rightarrow> (out, Inl e)
      | Continue (out, xi) \<Rightarrow> (out, bnd (g xi) (\<lambda>v. Inr (xi, v, maxit))))"

definition fixed_point_list_body ::
  "evaluator \<Rightarrow> pyfloat \<Rightarrow> int \<Rightarrow> row list \<times> pyfloat
     \<Rightarrow> (row list \<times> pyfloat, row list \<times> pyfloat \<times> pyfloat \<times> int, exn) outcome" where
  "fixed_point_list_body g tol k = (\<lambda>(iters, xi).
     attempt (g xi) (\<lambda>x_next.
       let err = fabs (fsub x_next xi)
       in attempt (g x_next) (\<lambda>shown.
            let iters' = iters @ [(k, x_next, shown, err, GUsed)]
            in if flt err tol then attempt (g x_next) (\<lambda>v. Return (iters', x_next, v, k))
               else Continue (iters', x_next))))"

definition fixed_point_list :: "evaluator \<Rightarrow> pyfloat \<Rightarrow> pyfloat \<Rightarrow> int \<Rightarrow> web_run" where
  "fixed_point_list g x0v tol maxit =
     (case for_loop (fixed_point_list_body g tol) (range1 maxit) ([], x0v) of
        Return r \<Rightarrow> Inr r
      | Raise e \<Rightarrow> Inl e
      | Continue (iters, xi) \<Rightarrow> bnd (g xi) (\<lambda>v. Inr (iters, xi, v, maxit)))"

section \<open>Modified secant\<close>

text \<open>
  \<open>x0\<close> and \<open>delta\<close> are parameters that no statement assigns, so the perturbation the
  loop recomputes at every pass is the same expression of the same two values.
\<close>

definition perturb_of :: "pyfloat \<Rightarrow> pyfloat \<Rightarrow> pyfloat" where
  "perturb_of x0v delta = (if \<not> feq x0v (Fin 0) then fmul x0v delta else delta)"

definition modified_secant_body ::
  "evaluator \<Rightarrow> pyfloat \<Rightarrow> pyfloat \<Rightarrow> pyfloat \<Rightarrow> int \<Rightarrow> line list \<times> pyfloat
     \<Rightarrow> (line list \<times> pyfloat, line list \<times> result, line list \<times> exn) outcome" where
  "modified_secant_body f x0v delta tol k = (\<lambda>(out, xi).
     let perturb = perturb_of x0v delta in
     attempt_cli out (f (fadd xi perturb)) (\<lambda>fp.
     attempt_cli out (f xi) (\<lambda>fx.
       let denom = fsub fp fx in
       if feq denom (Fin 0)
       then Raise (out, Exn ZeroDivisionError ''Denominator zero in Modified Secant.'')
       else
         attempt_cli out (f xi) (\<lambda>fx'.
         attempt_cli out (fdiv (fmul fx' perturb) denom) (\<lambda>q.
           let x_next = fsub xi q;
               err = fabs (fsub x_next xi)
           in attempt_cli out (f x_next) (\<lambda>shown.
                let out' = print_row out (k, x_next, shown, err, Delta delta);
                    ret = attempt_cli out' (f x_next) (\<lambda>v. Return (out', (x_next, v, k)))
                in if flt err tol then ret
                   else attempt_cli out' (f x_next) (\<lambda>v.
                          if flt (fabs v) tol then ret else Continue (out', x_next))))))))"

definition modified_secant :: "evaluator \<Rightarrow> pyfloat \<Rightarrow> pyfloat \<Rightarrow> pyfloat \<Rightarrow> int \<Rightarrow> cli_run" where
  "modified_secant f x0v delta tol maxit =
     (case for_loop (modified_secant_body f x0v delta tol) (range1 maxit) (print_iter_header [], x0v) of
        Return (out, r) \<Rightarrow> (out, Inr r)
      | Raise (out, e) \<Rightarrow> (out, Inl e)
      | Continue (out, xi) \<Rightarrow> (out, bnd (f xi) (\<lambda>v. Inr (xi, v, maxit))))"

definition modified_secant_list_body ::
  "evaluator \<Rightarrow> pyfloat \<Rightarrow> pyfloat \<Rightarrow> pyfloat \<Rightarrow> int \<Rightarrow> row list \<times> pyfloat
     \<Rightarrow> (row list \<times> pyfloat, row list \<times> pyfloat \<times> pyfloat \<times> int, exn) outcome" where
  "modified_secant_list_body f x0v delta tol k = (\<lambda>(iters, xi).
     let perturb = perturb_of x0v delta in
     attempt (f (fadd xi perturb)) (\<lambda>fp.
     attempt (f xi) (\<lambda>fx.
       let denom = fsub fp fx in
       if feq denom (Fin 0)
       then Raise (Exn ZeroDivisionError ''Denominator zero in Modified Secant.'')
       else
         attempt (f xi) (\<lambda>fx'.
         attempt (fdiv (fmul fx' perturb) denom) (\<lambda>q.
           let x_next = fsub xi q;
               err = fabs (fsub x_next xi)
           in attempt (f x_next) (\<lambda>shown.
                let iters' = iters @ [(k, x_next, shown, err, Delta delta)];
                    ret = attempt (f x_next) (\<lambda>v. Return (iters', x_next, v, k))
                in if flt err tol then ret
                   else attempt (f x_next) (\<lambda>v.
                          if flt (fabs v) tol then ret else Continue (iters', x_next))))))))"

definition modified_secant_list :: "evaluator \<Rightarrow> pyfloat \<Rightarrow> pyfloat \<Rightarrow> pyfloat \<Rightarrow> int \<Rightarrow> web_run" where
  "modified_secant_list f x0v delta tol maxit =
     (case for_loop (modified_secant_list_body f x0v delta tol) (range1 maxit) ([], x0v) of
        Return r \<Rightarrow> Inr r
      | Raise e \<Rightarrow> Inl e
      | Continue (iters, xi) \<Rightarrow> bnd (f xi) (\<lambda>v. Inr (iters, xi, v, maxit)))"

section \<open>The two front ends\<close>

text \<open>
  \<open>main\<close> and \<open>index\<close> read the choice of method with its seeds and call the matching
  function with the parsed \<open>f\<close>, its derivative \<open>df\<close>, and (for the fixed point) the
  parsed \<open>g\<close>.
\<close>

datatype choice =
    Bisection pyfloat pyfloat
  | RegulaFalsi pyfloat pyfloat
  | Secant pyfloat pyfloat
  | NewtonRaphson pyfloat
  | FixedPoint pyfloat
  | ModifiedSecant pyfloat pyfloat

fun run_cli :: "evaluator \<Rightarrow> evaluator \<Rightarrow> evaluator \<Rightarrow> pyfloat \<Rightarrow> int \<Rightarrow> choice \<Rightarrow> cli_run" where
  "run_cli f df g tol maxit (Bisection av bv) = bisection f av bv tol maxit"
| "run_cli f df g tol maxit (RegulaFalsi av bv) = regula_falsi f av bv tol maxit"
| "run_cli f df g tol maxit (Secant x0v x1v) = secant f x0v x1v tol maxit"
| "run_cli f df g tol maxit (NewtonRaphson x0v) = newton_raphson f df x0v tol maxit"
| "run_cli f df g tol maxit (FixedPoint x0v) = fixed_point g x0v tol maxit"
| "run_cli f df g tol maxit (ModifiedSecant x0v delta) = modified_secant f x0v delta tol maxit"

fun run_web :: "evaluator \<Rightarrow> evaluator \<Rightarrow> evaluator \<Rightarrow> pyfloat \<Rightarrow> int \<Rightarrow> choice \<Rightarrow> web_run" where
  "run_web f df g tol maxit (Bisection av bv) = bisection_list f av bv tol maxit"
| "run_web f df g tol maxit (RegulaFalsi av bv) = regula_falsi_list f av bv tol maxit"
| "run_web f df g tol maxit (Secant x0v x1v) = secant_list f x0v x1v tol maxit"
| "run_web f df g tol maxit (NewtonRaphson x0v) = newton_list f df x0v tol maxit"
| "run_web f df g tol maxit (FixedPoint x0v) = fixed_point_list g x0v tol maxit"
| "run_web f df g tol maxit (ModifiedSecant x0v delta) = modified_secant_list f x0v delta tol maxit"

section \<open>Predicates used in the proofs\<close>

text \<open>
  \<open>trace_ok rows xr fr its\<close>: the rows are numbered \<open>1, ..., its\<close>, there is at least one,
  and the last one holds the returned estimate and function value. \<open>loop_inv\<close> is the
  same fact about the rows produced after \<open>k\<close> passes, together with the locals that the
  statement after the loop reads.
\<close>

definition trace_ok :: "row list \<Rightarrow> pyfloat \<Rightarrow> pyfloat \<Rightarrow> int \<Rightarrow> bool" where
  "trace_ok rows xr fr its =
     (map row_index rows = [1..its] \<and> rows \<noteq> [] \<and>
      row_estimate (last rows) = xr \<and> row_value (last rows) = fr)"

definition loop_inv :: "int \<Rightarrow> row list \<Rightarrow> pyfloat option \<Rightarrow> pyfloat option \<Rightarrow> bool" where
  "loop_inv k rows cur val =
     (map row_index rows = [1..k] \<and>
      (1 \<le> k \<longrightarrow> rows \<noteq> [] \<and> cur = Some (row_estimate (last rows)) \<and>
                 val = Some (row_value (last rows))))"

definition value_at :: "evaluator \<Rightarrow> pyfloat \<Rightarrow> pyfloat option" where
  "value_at f x = (case f x of Inl e \<Rightarrow> None | Inr v \<Rightarrow> Some v)"

definition returned_at :: "int \<Rightarrow> row list \<times> pyfloat \<times> pyfloat \<times> int \<Rightarrow> bool" where
  "returned_at k = (\<lambda>(rows, xr, fr, its). its = k \<and> trace_ok rows xr fr its)"

definition returned_at_cli :: "int \<Rightarrow> line list \<times> result \<Rightarrow> bool" where
  "returned_at_cli k = (\<lambda>(out, xr, fr, its). its = k \<and> trace_ok (printed_rows out) xr fr its)"

definition raised_any :: "int \<Rightarrow> 'e \<Rightarrow> bool" where
  "raised_any k e = True"

definition shown_value :: "evaluator \<Rightarrow> pyfloat \<Rightarrow> pyfloat" where
  "shown_value g x = (case g x of Inl e \<Rightarrow> NaN | Inr v \<Rightarrow> v)"

section \<open>Concrete evaluators and runs\<close>

text \<open>
  The evaluators of a few expressions a user can type: \<open>x\<close>, \<open>x**2 - 2\<close>, \<open>x**2 + 1\<close>
  with its derivative \<open>2*x\<close>, \<open>x**2\<close> (same derivative), \<open>sqrt(x) - 2\<close> (numpy's square root gives \<open>NaN\<close> below
  zero), and \<open>1/(x - 2)\<close>, whose division raises at \<open>x = 2\<close>.
\<close>

definition f_linear :: evaluator where
  "f_linear x = Inr x"

definition f_sq_minus_2 :: evaluator where
  "f_sq_minus_2 x = Inr (fsub (fmul x x) (Fin 2))"

definition f_sq_plus_1 :: evaluator where
  "f_sq_plus_1 x = Inr (fadd (fmul x x) (Fin 1))"

definition df_sq_plus_1 :: evaluator where
  "df_sq_plus_1 x = Inr (fmul (Fin 2) x)"

definition f_sqrt_minus_2 :: evaluator where
  "f_sqrt_minus_2 x =
     (case x of
        Fin r \<Rightarrow> if r < 0 then Inr NaN else Inr (Fin (sqrt r - 2))
      | PInf \<Rightarrow> Inr PInf
      | NInf \<Rightarrow> Inr NaN
      | NaN \<Rightarrow> Inr NaN)"

definition g_recip :: evaluator where
  "g_recip x = fdiv (Fin 1) (fsub x (Fin 2))"

definition f_sq :: evaluator where
  "f_sq x = Inr (fmul x x)"

text \<open>The class of the exception a command-line run ended with, if it raised.\<close>

definition failure_kind :: "cli_run \<Rightarrow> exn_class option" where
  "failure_kind r = (case snd r of Inl e \<Rightarrow> Some (exn_kind e) | Inr v \<Rightarrow> None)"

text \<open>The rows of the secant method on \<open>x**2 - 2\<close> from the seeds 1 and 2, tolerance 0.01.\<close>

definition secant_rows :: "row list" where
  "secant_rows =
     [(1, Fin (4 / 3), Fin (- (2 / 9)), Fin (2 / 3), Points (Fin 1) (Fin 2)),
      (2, Fin (7 / 5), Fin (- (1 / 25)), Fin (1 / 15), Points (Fin 2) (Fin (4 / 3))),
      (3, Fin (58 / 41), Fin (2 / 1681), Fin (3 / 205), Points (Fin (4 / 3)) (Fin (7 / 5)))]"

text \<open>
  The secant window of the seeds -1 and 1 of \<open>x**2\<close>, where both function values are 1.
\<close>

definition window_equal :: window where
  "window_equal = \<lparr>x0 = Fin (- 1), x1 = Fin 1, f0 = Fin 1, f1 = Fin 1, x2 = None, fx2 = None\<rparr>"

text \<open>
  Two runs agree when both raise an exception of the same class or both return the same
  estimate, function value and iteration count.
\<close>

definition same_outcome :: "cli_run \<Rightarrow> web_run \<Rightarrow> bool" where
  "same_outcome cr wr =
     (case snd cr of
        Inl e \<Rightarrow> (case wr of Inl e' \<Rightarrow> exn_kind e = exn_kind e' | Inr r' \<Rightarrow> False)
      | Inr r \<Rightarrow> (case wr of Inl e' \<Rightarrow> False | Inr r' \<Rightarrow> r = snd r'))"

text \<open>
  The locals of bisection on \<open>f(x) = x\<close> over \<open>[0, 4]\<close> at entry, and after the first pass.
\<close>

definition zero_left_bracket :: bracket where
  "zero_left_bracket = \<lparr>a = Fin 0, b = Fin 4, fa = Fin 0, fb = Fin 4, c = None, fc = None\<rparr>"

definition lost_bracket :: bracket where
  "lost_bracket =
     \<lparr>a = Fin 2, b = Fin 4, fa = Fin 2, fb = Fin 4, c = Some (Fin 2), fc = Some (Fin 2)\<rparr>"

section \<open>The modified secant step as the specification words it\<close>

text \<open>
  The perturbation is \<open>x0 * delta\<close> when \<open>x0 \<noteq> 0\<close> and \<open>delta\<close> when \<open>x0 == 0\<close>. One step
  from \<open>xi\<close> with perturbation \<open>p\<close> is
  \<open>x_next = xi - f(xi) * p / (f(xi + p) - f(xi))\<close>, failing with the division-by-zero
  error when the denominator is exactly zero. \<open>ms_chain f p prev rows\<close> says that the
  estimate of every row is one such step from the estimate of the row before it, the first
  from \<open>prev\<close>, always with the same \<open>p\<close>.
\<close>

definition spec_perturb :: "pyfloat \<Rightarrow> pyfloat \<Rightarrow> pyfloat" where
  "spec_perturb x0v delta = (if feq x0v (Fin 0) then delta else fmul x0v delta)"

definition spec_ms_next :: "evaluator \<Rightarrow> pyfloat \<Rightarrow> pyfloat \<Rightarrow> exn + pyfloat" where
  "spec_ms_next f p xi =
     bnd (f (fadd xi p)) (\<lambda>fp. bnd (f xi) (\<lambda>fx.
       if fsub fp fx = Fin 0
       then Inl (Exn ZeroDivisionError ''Denominator zero in Modified Secant.'')
       else Inr (fsub xi (fquot (fmul fx p) (fsub fp fx)))))"

fun ms_chain :: "evaluator \<Rightarrow> pyfloat \<Rightarrow> pyfloat \<Rightarrow> row list \<Rightarrow> bool" where
  "ms_chain f p prev [] = True"
| "ms_chain f p prev (r # rs) =
     (spec_ms_next f p prev = Inr (row_estimate r) \<and> ms_chain f p (row_estimate r) rs)"

definition last_estimate :: "pyfloat \<Rightarrow> row list \<Rightarrow> pyfloat" where
  "last_estimate x0v rows = (if rows = [] then x0v else row_estimate (last rows))"

definition ms_inv :: "evaluator \<Rightarrow> pyfloat \<Rightarrow> pyfloat \<Rightarrow> row list \<Rightarrow> pyfloat \<Rightarrow> bool" where
  "ms_inv f p x0v rows xi = (ms_chain f p x0v rows \<and> xi = last_estimate x0v rows)"

text \<open>The one row of the modified secant method on \<open>x**2 - 2\<close> from 1 with \<open>delta = 1\<close>.\<close>

definition ms_rows :: "row list" where
  "ms_rows = [(1, Fin (4 / 3), Fin (- (2 / 9)), Fin (1 / 3), Delta (Fin 1))]"

section \<open>Relating the command-line loops to the web loops\<close>

text \<open>
  \<open>agree\<close> is \<open>same_outcome\<close> together with: the rows printed are the rows collected. The
  three relations below say it for the states, the returns and the raises of two loop
  bodies run side by side. The command-line bracketing loops start with \<open>c\<close> bound and the
  web loops with \<open>c\<close> unbound, which no statement can observe while \<open>fc\<close> is unbound.
\<close>

definition agree :: "cli_run \<Rightarrow> web_run \<Rightarrow> bool" where
  "agree cr wr =
     (case snd cr of
        Inl e \<Rightarrow> (case wr of Inl e' \<Rightarrow> exn_kind e = exn_kind e' | Inr r' \<Rightarrow> False)
      | Inr r \<Rightarrow> (case wr of Inl e' \<Rightarrow> False
                 | Inr r' \<Rightarrow> r = snd r' \<and> printed_rows (fst cr) = fst r'))"

definition bracket_rel :: "bracket \<Rightarrow> bracket \<Rightarrow> bool" where
  "bracket_rel s t =
     (a s = a t \<and> b s = b t \<and> fa s = fa t \<and> fb s = fb t \<and> fc s = fc t \<and>
      (fc s \<noteq> None \<longrightarrow> c s = c t))"

definition state_rel :: "('s \<Rightarrow> 't \<Rightarrow> bool) \<Rightarrow> line list \<times> 's \<Rightarrow> row list \<times> 't \<Rightarrow> bool" where
  "state_rel R = (\<lambda>(out, s) (rows, t). printed_rows out = rows \<and> R s t)"

definition return_rel :: "line list \<times> result \<Rightarrow> row list \<times> pyfloat \<times> pyfloat \<times> int \<Rightarrow> bool" where
  "return_rel = (\<lambda>(out, r) (rows, r'). printed_rows out = rows \<and> r = r')"

definition raise_rel :: "line list \<times> exn \<Rightarrow> exn \<Rightarrow> bool" where
  "raise_rel = (\<lambda>(out, e) e'. exn_kind e = exn_kind e')"

section \<open>The secant step as the specification words it\<close>

text \<open>
  \<open>exp(x)\<close> as numpy evaluates it: it overflows to infinity from 710 on. The error the
  secant loops raise; the locals of a secant run at entry; the new point
  \<open>x2 = x1 - f(x1) * (x1 - x0) / (f(x1) - f(x0))\<close> from the window points and their
  function values; and the fact that the stored values of a window are the function values
  at its points.
\<close>

definition f_exp :: evaluator where
  "f_exp x =
     (case x of
        Fin r \<Rightarrow> if 710 \<le> r then Inr PInf else Inr (Fin (exp r))
      | PInf \<Rightarrow> Inr PInf
      | NInf \<Rightarrow> Inr (Fin 0)
      | NaN \<Rightarrow> Inr NaN)"

definition secant_error :: exn where
  "secant_error = Exn ZeroDivisionError ''Division by zero in Secant method.''"

definition secant_seeds :: "pyfloat \<Rightarrow> pyfloat \<Rightarrow> pyfloat \<Rightarrow> pyfloat \<Rightarrow> window" where
  "secant_seeds x0v x1v v0 v1 =
     \<lparr>x0 = x0v, x1 = x1v, f0 = v0, f1 = v1, x2 = None, fx2 = None\<rparr>"

definition secant_point :: "pyfloat \<Rightarrow> pyfloat \<Rightarrow> pyfloat \<Rightarrow> pyfloat \<Rightarrow> pyfloat" where
  "secant_point xa xb u0 u1 = fsub xb (fquot (fmul u1 (fsub xb xa)) (fsub u1 u0))"

definition window_ok :: "evaluator \<Rightarrow> window \<Rightarrow> bool" where
  "window_ok f s = (f (x0 s) = Inr (f0 s) \<and> f (x1 s) = Inr (f1 s))"

text \<open>The window of the secant method on \<open>x**2 - 2\<close> from the seeds 1 and 2 after one pass.\<close>

definition window_after_one :: window where
  "window_after_one =
     \<lparr>x0 = Fin 2, x1 = Fin (4 / 3), f0 = Fin 2, f1 = Fin (- (2 / 9)),
      x2 = Some (Fin (4 / 3)), fx2 = Some (Fin (- (2 / 9)))\<rparr>"

section \<open>The for statement: an invariant rule\<close>

lemma for_loop_upto:
  assumes "I (i - 1) s"
    and "\<And>k s. i \<le> k \<Longrightarrow> k \<le> n \<Longrightarrow> I (k - 1) s \<Longrightarrow>
           (case body k s of Continue s' \<Rightarrow> I k s' | Return r \<Rightarrow> R k r | Raise e \<Rightarrow> E k e)"
  shows "case for_loop body [i..n] s of
           Continue s' \<Rightarrow> (if i \<le> n then I n s' else s' = s)
         | Return r \<Rightarrow> (\<exists>k. i \<le> k \<and> k \<le> n \<and> R k r)
         | Raise e \<Rightarrow> (\<exists>k. i \<le> k \<and> k \<le> n \<and> E k e)"
  using assms
proof (induction "nat (n + 1 - i)" arbitrary: i s)
  case 0
  then have "[i..n] = []" by simp
  with 0 show ?case by simp
next
  case (Suc m)
  then have le: "i \<le> n" and m: "m = nat (n + 1 - (i + 1))" by linarith+
  have unf: "[i..n] = i # [i + 1..n]" using le by (simp add: upto_rec1)
  have stepi: "case body i s of Continue s' \<Rightarrow> I i s' | Return r \<Rightarrow> R i r | Raise e \<Rightarrow> E i e"
    using Suc.prems(2)[of i s] le Suc.prems(1) by simp
  show ?case
  proof (cases "body i s")
    case (Continue s')
    with stepi have I': "I (i + 1 - 1) s'" by simp
    have step': "\<And>k s. i + 1 \<le> k \<Longrightarrow> k \<le> n \<Longrightarrow> I (k - 1) s \<Longrightarrow>
           (case body k s of Continue s' \<Rightarrow> I k s' | Return r \<Rightarrow> R k r | Raise e \<Rightarrow> E k e)"
      using Suc.prems(2) by simp
    have IH: "case for_loop body [i + 1..n] s' of
           Continue s'' \<Rightarrow> (if i + 1 \<le> n then I n s'' else s'' = s')
         | Return r \<Rightarrow> (\<exists>k. i + 1 \<le> k \<and> k \<le> n \<and> R k r)
         | Raise e \<Rightarrow> (\<exists>k. i + 1 \<le> k \<and> k \<le> n \<and> E k e)"
      using Suc.hyps(1)[OF m I' step'] by simp
    show ?thesis
    proof (cases "for_loop body [i + 1..n] s'")
      case c2: (Continue s'')
      with IH have "if i + 1 \<le> n then I n s'' else s'' = s'" by simp
      then have "I n s''" using stepi Continue le by (cases "i + 1 \<le> n") (auto simp: not_le intro: )
      then show ?thesis using le unf Continue c2 by simp
    next
      case (Return r)
      with IH obtain k where "i + 1 \<le> k" "k \<le> n" "R k r" by auto
      then have "\<exists>k. i \<le> k \<and> k \<le> n \<and> R k r" by (intro exI[of _ k]) simp
      then show ?thesis using unf Continue Return by simp
    next
      case (Raise e)
      with IH obtain k where "i + 1 \<le> k" "k \<le> n" "E k e" by auto
      then have "\<exists>k. i \<le> k \<and> k \<le> n \<and> E k e" by (intro exI[of _ k]) simp
      then show ?thesis using unf Continue Raise by simp
    qed
  next
    case (Return r)
    with stepi have "R i r" by simp
    then have "\<exists>k. i \<le> k \<and> k \<le> n \<and> R k r" using le by (intro exI[of _ i]) simp
    then show ?thesis using unf Return by simp
  next
    case (Raise e)
    with stepi have "E i e" by simp
    then have "\<exists>k. i \<le> k \<and> k \<le> n \<and> E k e" using le by (intro exI[of _ i]) simp
    then show ?thesis using unf Raise by simp
  qed
qed

section \<open>Rows produced by each loop\<close>

lemma printed_rows_append: "printed_rows (xs @ ys) = printed_rows xs @ printed_rows ys"
  by (induction xs rule: printed_rows.induct) simp_all

lemma printed_rows_print_row: "printed_rows (print_row out r) = printed_rows out @ [r]"
  by (simp add: print_row_def printed_rows_append)

lemma printed_rows_header: "printed_rows (print_iter_header []) = []"
  by (simp add: print_iter_header_def)

lemma loop_inv_start: "loop_inv 0 [] cur val"
  by (simp add: loop_inv_def)

lemma loop_inv_snoc:
  assumes "1 \<le> k" "loop_inv (k - 1) rows cur val"
  shows "loop_inv k (rows @ [(k, x, v, e, ex)]) (Some x) (Some v)"
    and "trace_ok (rows @ [(k, x, v, e, ex)]) x v k"
  using assms by (simp_all add: loop_inv_def trace_ok_def row_index_def row_estimate_def
      row_value_def upto_rec2)

lemma loop_inv_exit:
  assumes "1 \<le> k" "loop_inv k rows (Some x) (Some v)"
  shows "trace_ok rows x v k"
  using assms by (simp add: loop_inv_def trace_ok_def)

lemma trace_ok_pos: "trace_ok rows xr fr its \<Longrightarrow> 1 \<le> its"
  by (cases "1 \<le> its") (auto simp: trace_ok_def)

subsection \<open>Bracketing loops\<close>

lemma bisection_list_body_step:
  assumes "1 \<le> k" "loop_inv (k - 1) (fst s) (c (snd s)) (fc (snd s))"
  shows "case bisection_list_body f tol k s of
           Continue s' \<Rightarrow> loop_inv k (fst s') (c (snd s')) (fc (snd s'))
         | Return r \<Rightarrow> returned_at k r
         | Raise e \<Rightarrow> raised_any k e"
  using loop_inv_snoc[OF assms]
  by (cases s) (simp add: bisection_list_body_def attempt_def Let_def returned_at_def
       raised_any_def update_bracket_def split: sum.splits)

lemma bisection_body_step:
  assumes "1 \<le> k" "loop_inv (k - 1) (printed_rows (fst s)) (c (snd s)) (fc (snd s))"
  shows "case bisection_body f tol k s of
           Continue s' \<Rightarrow> loop_inv k (printed_rows (fst s')) (c (snd s')) (fc (snd s'))
         | Return r \<Rightarrow> returned_at_cli k r
         | Raise e \<Rightarrow> raised_any k e"
  using loop_inv_snoc[OF assms]
  by (cases s) (simp add: bisection_body_def attempt_cli_def Let_def returned_at_cli_def
       raised_any_def update_bracket_def printed_rows_print_row split: sum.splits)

lemma regula_falsi_list_body_step:
  assumes "1 \<le> k" "loop_inv (k - 1) (fst s) (c (snd s)) (fc (snd s))"
  shows "case regula_falsi_list_body f tol k s of
           Continue s' \<Rightarrow> loop_inv k (fst s') (c (snd s')) (fc (snd s'))
         | Return r \<Rightarrow> returned_at k r
         | Raise e \<Rightarrow> raised_any k e"
  using loop_inv_snoc[OF assms]
  by (cases s) (simp add: regula_falsi_list_body_def attempt_def Let_def returned_at_def
       raised_any_def update_bracket_def split: sum.splits)

lemma regula_falsi_body_step:
  assumes "1 \<le> k" "loop_inv (k - 1) (printed_rows (fst s)) (c (snd s)) (fc (snd s))"
  shows "case regula_falsi_body f tol k s of
           Continue s' \<Rightarrow> loop_inv k (printed_rows (fst s')) (c (snd s')) (fc (snd s'))
         | Return r \<Rightarrow> returned_at_cli k r
         | Raise e \<Rightarrow> raised_any k e"
  using loop_inv_snoc[OF assms]
  by (cases s) (simp add: regula_falsi_body_def attempt_cli_def Let_def returned_at_cli_def
       raised_any_def update_bracket_def printed_rows_print_row split: sum.splits)

lemma secant_list_body_step:
  assumes "1 \<le> k" "loop_inv (k - 1) (fst s) (x2 (snd s)) (fx2 (snd s))"
  shows "case secant_list_body f tol k s of
           Continue s' \<Rightarrow> loop_inv k (fst s') (x2 (snd s')) (fx2 (snd s'))
         | Return r \<Rightarrow> returned_at k r
         | Raise e \<Rightarrow> raised_any k e"
  using loop_inv_snoc[OF assms]
  by (cases s) (simp add: secant_list_body_def attempt_def Let_def returned_at_def
       raised_any_def slide_def split: sum.splits)

lemma secant_body_step:
  assumes "1 \<le> k" "loop_inv (k - 1) (printed_rows (fst s)) (x2 (snd s)) (fx2 (snd s))"
  shows "case secant_body f tol k s of
           Continue s' \<Rightarrow> loop_inv k (printed_rows (fst s')) (x2 (snd s')) (fx2 (snd s'))
         | Return r \<Rightarrow> returned_at_cli k r
         | Raise e \<Rightarrow> raised_any k e"
  using loop_inv_snoc[OF assms]
  by (cases s) (simp add: secant_body_def attempt_cli_def Let_def returned_at_cli_def
       raised_any_def slide_def printed_rows_print_row split: sum.splits)

lemma newton_list_body_step:
  assumes "1 \<le> k" "loop_inv (k - 1) (fst s) (Some (snd s)) (value_at f (snd s))"
  shows "case newton_list_body f df tol k s of
           Continue s' \<Rightarrow> loop_inv k (fst s') (Some (snd s')) (value_at f (snd s'))
         | Return r \<Rightarrow> returned_at k r
         | Raise e \<Rightarrow> raised_any k e"
  using loop_inv_snoc[OF assms]
  by (cases s) (simp add: newton_list_body_def attempt_def Let_def returned_at_def
       raised_any_def value_at_def split: sum.splits)

lemma newton_raphson_body_step:
  assumes "1 \<le> k" "loop_inv (k - 1) (printed_rows (fst s)) (Some (snd s)) (value_at f (snd s))"
  shows "case newton_raphson_body f df tol k s of
           Continue s' \<Rightarrow> loop_inv k (printed_rows (fst s')) (Some (snd s')) (value_at f (snd s'))
         | Return r \<Rightarrow> returned_at_cli k r
         | Raise e \<Rightarrow> raised_any k e"
  using loop_inv_snoc[OF assms]
  by (cases s) (simp add: newton_raphson_body_def attempt_cli_def Let_def returned_at_cli_def
       raised_any_def value_at_def printed_rows_print_row split: sum.splits)

lemma modified_secant_list_body_step:
  assumes "1 \<le> k" "loop_inv (k - 1) (fst s) (Some (snd s)) (value_at f (snd s))"
  shows "case modified_secant_list_body f x0v delta tol k s of
           Continue s' \<Rightarrow> loop_inv k (fst s') (Some (snd s')) (value_at f (snd s'))
         | Return r \<Rightarrow> returned_at k r
         | Raise e \<Rightarrow> raised_any k e"
  using loop_inv_snoc[OF assms]
  by (cases s) (simp add: modified_secant_list_body_def attempt_def Let_def returned_at_def
       raised_any_def value_at_def split: sum.splits)

lemma modified_secant_body_step:
  assumes "1 \<le> k" "loop_inv (k - 1) (printed_rows (fst s)) (Some (snd s)) (value_at f (snd s))"
  shows "case modified_secant_body f x0v delta tol k s of
           Continue s' \<Rightarrow> loop_inv k (printed_rows (fst s')) (Some (snd s')) (value_at f (snd s'))
         | Return r \<Rightarrow> returned_at_cli k r
         | Raise e \<Rightarrow> raised_any k e"
  using loop_inv_snoc[OF assms]
  by (cases s) (simp add: modified_secant_body_def attempt_cli_def Let_def returned_at_cli_def
       raised_any_def value_at_def printed_rows_print_row split: sum.splits)

lemma fixed_point_list_body_step:
  assumes "1 \<le> k" "loop_inv (k - 1) (fst s) (Some (snd s)) (value_at g (snd s))"
  shows "case fixed_point_list_body g tol k s of
           Continue s' \<Rightarrow> loop_inv k (fst s') (Some (snd s')) (value_at g (snd s'))
         | Return r \<Rightarrow> returned_at k r
         | Raise e \<Rightarrow> raised_any k e"
  using loop_inv_snoc[OF assms]
  by (cases s) (simp add: fixed_point_list_body_def attempt_def Let_def returned_at_def
       raised_any_def value_at_def split: sum.splits)

lemma fixed_point_body_step:
  assumes "1 \<le> k" "loop_inv (k - 1) (printed_rows (fst s)) (Some (snd s)) (Some (shown_value g (snd s)))"
  shows "case fixed_point_body g tol k s of
           Continue s' \<Rightarrow> loop_inv k (printed_rows (fst s')) (Some (snd s')) (Some (shown_value g (snd s')))
         | Return r \<Rightarrow> returned_at_cli k r
         | Raise e \<Rightarrow> raised_any k e"
  using loop_inv_snoc[OF assms]
  by (cases s) (simp add: fixed_point_body_def attempt_cli_def Let_def returned_at_cli_def
       raised_any_def shown_value_def printed_rows_print_row split: sum.splits)

lemma loop_shape:
  assumes "1 \<le> maxit" "I 0 s0"
    and "\<And>k s. 1 \<le> k \<Longrightarrow> I (k - 1) s \<Longrightarrow>
           (case body k s of Continue s' \<Rightarrow> I k s' | Return r \<Rightarrow> R k r | Raise e \<Rightarrow> raised_any k e)"
  shows "case for_loop body (range1 maxit) s0 of
           Continue s' \<Rightarrow> I maxit s'
         | Return r \<Rightarrow> (\<exists>k. 1 \<le> k \<and> k \<le> maxit \<and> R k r)
         | Raise e \<Rightarrow> True"
proof -
  have "case for_loop body [1..maxit] s0 of
           Continue s' \<Rightarrow> (if 1 \<le> maxit then I maxit s' else s' = s0)
         | Return r \<Rightarrow> (\<exists>k. 1 \<le> k \<and> k \<le> maxit \<and> R k r)
         | Raise e \<Rightarrow> (\<exists>k. 1 \<le> k \<and> k \<le> maxit \<and> raised_any k e)"
    by (rule for_loop_upto[where I = I and R = R and E = raised_any]) (use assms in auto)
  then show ?thesis
    using assms(1) by (simp add: range1_def split: outcome.splits)
qed

lemma bisection_list_shape:
  assumes "1 \<le> maxit" "bisection_list f av bv tol maxit = Inr (rows, xr, fr, its)"
  shows "its \<le> maxit \<and> trace_ok rows xr fr its"
proof -
  obtain fav fbv where ev: "f av = Inr fav" "f bv = Inr fbv" "\<not> flt (Fin 0) (fmul fav fbv)"
    using assms(2) by (auto simp: bisection_list_def bnd_def split: sum.splits if_splits)
  let ?s0 = "([], \<lparr>a = av, b = bv, fa = fav, fb = fbv, c = None, fc = None\<rparr>)"
  have "case for_loop (bisection_list_body f tol) (range1 maxit) ?s0 of
           Continue s' \<Rightarrow> loop_inv maxit (fst s') (c (snd s')) (fc (snd s'))
         | Return r \<Rightarrow> (\<exists>k. 1 \<le> k \<and> k \<le> maxit \<and> returned_at k r)
         | Raise e \<Rightarrow> True"
    by (rule loop_shape[OF assms(1)]) (simp_all add: loop_inv_start bisection_list_body_step)
  then show ?thesis
    using assms ev
    by (auto simp: bisection_list_def bnd_def returned_at_def lookup_local_def
          dest: loop_inv_exit split: outcome.splits option.splits)
qed

lemma bisection_shape:
  assumes "1 \<le> maxit" "bisection f av bv tol maxit = (out, Inr (xr, fr, its))"
  shows "its \<le> maxit \<and> trace_ok (printed_rows out) xr fr its"
proof -
  obtain fav fbv where ev: "f av = Inr fav" "f bv = Inr fbv" "\<not> isnan fav" "\<not> isnan fbv"
      "\<not> flt (Fin 0) (fmul fav fbv)"
    using assms(2) by (auto simp: bisection_def split: sum.splits if_splits)
  let ?s0 = "(print_iter_header [], \<lparr>a = av, b = bv, fa = fav, fb = fbv, c = Some av, fc = None\<rparr>)"
  have "case for_loop (bisection_body f tol) (range1 maxit) ?s0 of
           Continue s' \<Rightarrow> loop_inv maxit (printed_rows (fst s')) (c (snd s')) (fc (snd s'))
         | Return r \<Rightarrow> (\<exists>k. 1 \<le> k \<and> k \<le> maxit \<and> returned_at_cli k r)
         | Raise e \<Rightarrow> True"
    by (rule loop_shape[OF assms(1)])
       (simp_all add: loop_inv_start printed_rows_header bisection_body_step)
  then show ?thesis
    using assms ev
    by (auto simp: bisection_def bnd_def returned_at_cli_def lookup_local_def
          dest: loop_inv_exit split: outcome.splits option.splits)
qed

lemma regula_falsi_list_shape:
  assumes "1 \<le> maxit" "regula_falsi_list f av bv tol maxit = Inr (rows, xr, fr, its)"
  shows "its \<le> maxit \<and> trace_ok rows xr fr its"
proof -
  obtain fav fbv where ev: "f av = Inr fav" "f bv = Inr fbv" "\<not> flt (Fin 0) (fmul fav fbv)"
    using assms(2) by (auto simp: regula_falsi_list_def bnd_def split: sum.splits if_splits)
  let ?s0 = "([], \<lparr>a = av, b = bv, fa = fav, fb = fbv, c = None, fc = None\<rparr>)"
  have "case for_loop (regula_falsi_list_body f tol) (range1 maxit) ?s0 of
           Continue s' \<Rightarrow> loop_inv maxit (fst s') (c (snd s')) (fc (snd s'))
         | Return r \<Rightarrow> (\<exists>k. 1 \<le> k \<and> k \<le> maxit \<and> returned_at k r)
         | Raise e \<Rightarrow> True"
    by (rule loop_shape[OF assms(1)]) (simp_all add: loop_inv_start regula_falsi_list_body_step)
  then show ?thesis
    using assms ev
    by (auto simp: regula_falsi_list_def bnd_def returned_at_def lookup_local_def
          dest: loop_inv_exit split: outcome.splits option.splits)
qed

lemma regula_falsi_shape:
  assumes "1 \<le> maxit" "regula_falsi f av bv tol maxit = (out, Inr (xr, fr, its))"
  shows "its \<le> maxit \<and> trace_ok (printed_rows out) xr fr its"
proof -
  obtain fav fbv where ev: "f av = Inr fav" "f bv = Inr fbv" "\<not> flt (Fin 0) (fmul fav fbv)"
    using assms(2) by (auto simp: regula_falsi_def split: sum.splits if_splits)
  let ?s0 = "(print_iter_header [], \<lparr>a = av, b = bv, fa = fav, fb = fbv, c = Some av, fc = None\<rparr>)"
  have "case for_loop (regula_falsi_body f tol) (range1 maxit) ?s0 of
           Continue s' \<Rightarrow> loop_inv maxit (printed_rows (fst s')) (c (snd s')) (fc (snd s'))
         | Return r \<Rightarrow> (\<exists>k. 1 \<le> k \<and> k \<le> maxit \<and> returned_at_cli k r)
         | Raise e \<Rightarrow> True"
    by (rule loop_shape[OF assms(1)])
       (simp_all add: loop_inv_start printed_rows_header regula_falsi_body_step)
  then show ?thesis
    using assms ev
    by (auto simp: regula_falsi_def bnd_def returned_at_cli_def lookup_local_def
          dest: loop_inv_exit split: outcome.splits option.splits)
qed

lemma secant_list_shape:
  assumes "1 \<le> maxit" "secant_list f x0v x1v tol maxit = Inr (rows, xr, fr, its)"
  shows "its \<le> maxit \<and> trace_ok rows xr fr its"
proof -
  obtain f0v f1v where ev: "f x0v = Inr f0v" "f x1v = Inr f1v"
    using assms(2) by (auto simp: secant_list_def bnd_def split: sum.splits)
  let ?s0 = "([], \<lparr>x0 = x0v, x1 = x1v, f0 = f0v, f1 = f1v, x2 = None, fx2 = None\<rparr>)"
  have "case for_loop (secant_list_body f tol) (range1 maxit) ?s0 of
           Continue s' \<Rightarrow> loop_inv maxit (fst s') (x2 (snd s')) (fx2 (snd s'))
         | Return r \<Rightarrow> (\<exists>k. 1 \<le> k \<and> k \<le> maxit \<and> returned_at k r)
         | Raise e \<Rightarrow> True"
    by (rule loop_shape[OF assms(1)]) (simp_all add: loop_inv_start secant_list_body_step)
  then show ?thesis
    using assms ev
    by (auto simp: secant_list_def bnd_def returned_at_def lookup_local_def
          dest: loop_inv_exit split: outcome.splits option.splits)
qed

lemma secant_shape:
  assumes "1 \<le> maxit" "secant f x0v x1v tol maxit = (out, Inr (xr, fr, its))"
  shows "its \<le> maxit \<and> trace_ok (printed_rows out) xr fr its"
proof -
  obtain f0v f1v where ev: "f x0v = Inr f0v" "f x1v = Inr f1v"
    using assms(2) by (auto simp: secant_def Let_def split: sum.splits)
  let ?s0 = "(print_iter_header [], \<lparr>x0 = x0v, x1 = x1v, f0 = f0v, f1 = f1v, x2 = None, fx2 = None\<rparr>)"
  have "case for_loop (secant_body f tol) (range1 maxit) ?s0 of
           Continue s' \<Rightarrow> loop_inv maxit (printed_rows (fst s')) (x2 (snd s')) (fx2 (snd s'))
         | Return r \<Rightarrow> (\<exists>k. 1 \<le> k \<and> k \<le> maxit \<and> returned_at_cli k r)
         | Raise e \<Rightarrow> True"
    by (rule loop_shape[OF assms(1)])
       (simp_all add: loop_inv_start printed_rows_header secant_body_step)
  then show ?thesis
    using assms ev
    by (auto simp: secant_def Let_def bnd_def returned_at_cli_def lookup_local_def
          dest: loop_inv_exit split: outcome.splits option.splits)
qed

lemma newton_list_shape:
  assumes "1 \<le> maxit" "newton_list f df x0v tol maxit = Inr (rows, xr, fr, its)"
  shows "its \<le> maxit \<and> trace_ok rows xr fr its"
proof -
  have "case for_loop (newton_list_body f df tol) (range1 maxit) ([], x0v) of
           Continue s' \<Rightarrow> loop_inv maxit (fst s') (Some (snd s')) (value_at f (snd s'))
         | Return r \<Rightarrow> (\<exists>k. 1 \<le> k \<and> k \<le> maxit \<and> returned_at k r)
         | Raise e \<Rightarrow> True"
    by (rule loop_shape[OF assms(1)]) (simp_all add: loop_inv_start newton_list_body_step)
  then show ?thesis
    using assms
    by (auto simp: newton_list_def bnd_def returned_at_def value_at_def
          dest: loop_inv_exit split: outcome.splits sum.splits)
qed

lemma newton_raphson_shape:
  assumes "1 \<le> maxit" "newton_raphson f df x0v tol maxit = (out, Inr (xr, fr, its))"
  shows "its \<le> maxit \<and> trace_ok (printed_rows out) xr fr its"
proof -
  have "case for_loop (newton_raphson_body f df tol) (range1 maxit) (print_iter_header [], x0v) of
           Continue s' \<Rightarrow> loop_inv maxit (printed_rows (fst s')) (Some (snd s')) (value_at f (snd s'))
         | Return r \<Rightarrow> (\<exists>k. 1 \<le> k \<and> k \<le> maxit \<and> returned_at_cli k r)
         | Raise e \<Rightarrow> True"
    by (rule loop_shape[OF assms(1)])
       (simp_all add: loop_inv_start printed_rows_header newton_raphson_body_step)
  then show ?thesis
    using assms
    by (auto simp: newton_raphson_def bnd_def returned_at_cli_def value_at_def
          dest: loop_inv_exit split: outcome.splits sum.splits)
qed

lemma fixed_point_list_shape:
  assumes "1 \<le> maxit" "fixed_point_list g x0v tol maxit = Inr (rows, xr, fr, its)"
  shows "its \<le> maxit \<and> trace_ok rows xr fr its"
proof -
  have "case for_loop (fixed_point_list_body g tol) (range1 maxit) ([], x0v) of
           Continue s' \<Rightarrow> loop_inv maxit (fst s') (Some (snd s')) (value_at g (snd s'))
         | Return r \<Rightarrow> (\<exists>k. 1 \<le> k \<and> k \<le> maxit \<and> returned_at k r)
         | Raise e \<Rightarrow> True"
    by (rule loop_shape[OF assms(1)]) (simp_all add: loop_inv_start fixed_point_list_body_step)
  then show ?thesis
    using assms
    by (auto simp: fixed_point_list_def bnd_def returned_at_def value_at_def
          dest: loop_inv_exit split: outcome.splits sum.splits)
qed

lemma fixed_point_shape:
  assumes "1 \<le> maxit" "fixed_point g x0v tol maxit = (out, Inr (xr, fr, its))"
  shows "its \<le> maxit \<and> trace_ok (printed_rows out) xr fr its"
proof -
  have "case for_loop (fixed_point_body g tol) (range1 maxit) (print_iter_header [], x0v) of
           Continue s' \<Rightarrow> loop_inv maxit (printed_rows (fst s')) (Some (snd s')) (Some (shown_value g (snd s')))
         | Return r \<Rightarrow> (\<exists>k. 1 \<le> k \<and> k \<le> maxit \<and> returned_at_cli k r)
         | Raise e \<Rightarrow> True"
    by (rule loop_shape[OF assms(1)])
       (simp_all add: loop_inv_start printed_rows_header fixed_point_body_step)
  then show ?thesis
    using assms
    by (auto simp: fixed_point_def bnd_def returned_at_cli_def shown_value_def
          dest: loop_inv_exit split: outcome.splits sum.splits)
qed

lemma modified_secant_list_shape:
  assumes "1 \<le> maxit" "modified_secant_list f x0v delta tol maxit = Inr (rows, xr, fr, its)"
  shows "its \<le> maxit \<and> trace_ok rows xr fr its"
proof -
  have "case for_loop (modified_secant_list_body f x0v delta tol) (range1 maxit) ([], x0v) of
           Continue s' \<Rightarrow> loop_inv maxit (fst s') (Some (snd s')) (value_at f (snd s'))
         | Return r \<Rightarrow> (\<exists>k. 1 \<le> k \<and> k \<le> maxit \<and> returned_at k r)
         | Raise e \<Rightarrow> True"
    by (rule loop_shape[OF assms(1)]) (simp_all add: loop_inv_start modified_secant_list_body_step)
  then show ?thesis
    using assms
    by (auto simp: modified_secant_list_def bnd_def returned_at_def value_at_def
          dest: loop_inv_exit split: outcome.splits sum.splits)
qed

lemma modified_secant_shape:
  assumes "1 \<le> maxit" "modified_secant f x0v delta tol maxit = (out, Inr (xr, fr, its))"
  shows "its \<le> maxit \<and> trace_ok (printed_rows out) xr fr its"
proof -
  have "case for_loop (modified_secant_body f x0v delta tol) (range1 maxit) (print_iter_header [], x0v) of
           Continue s' \<Rightarrow> loop_inv maxit (printed_rows (fst s')) (Some (snd s')) (value_at f (snd s'))
         | Return r \<Rightarrow> (\<exists>k. 1 \<le> k \<and> k \<le> maxit \<and> returned_at_cli k r)
         | Raise e \<Rightarrow> True"
    by (rule loop_shape[OF assms(1)])
       (simp_all add: loop_inv_start printed_rows_header modified_secant_body_step)
  then show ?thesis
    using assms
    by (auto simp: modified_secant_def bnd_def returned_at_cli_def value_at_def
          dest: loop_inv_exit split: outcome.splits sum.splits)
qed

lemma run_web_shape:
  assumes "1 \<le> maxit" "run_web f df g tol maxit m = Inr (rows, xr, fr, its)"
  shows "its \<le> maxit \<and> trace_ok rows xr fr its"
proof (cases m)
  case (Bisection av bv)
  with assms show ?thesis using bisection_list_shape[of maxit f av bv tol rows xr fr its] by simp
next
  case (RegulaFalsi av bv)
  with assms show ?thesis using regula_falsi_list_shape[of maxit f av bv tol rows xr fr its] by simp
next
  case (Secant x0v x1v)
  with assms show ?thesis using secant_list_shape[of maxit f x0v x1v tol rows xr fr its] by simp
next
  case (NewtonRaphson x0v)
  with assms show ?thesis using newton_list_shape[of maxit f df x0v tol rows xr fr its] by simp
next
  case (FixedPoint x0v)
  with assms show ?thesis using fixed_point_list_shape[of maxit g x0v tol rows xr fr its] by simp
next
  case (ModifiedSecant x0v delta)
  with assms show ?thesis
    using modified_secant_list_shape[of maxit f x0v delta tol rows xr fr its] by simp
qed

lemma run_cli_shape:
  assumes "1 \<le> maxit" "run_cli f df g tol maxit m = (out, Inr (xr, fr, its))"
  shows "its \<le> maxit \<and> trace_ok (printed_rows out) xr fr its"
proof (cases m)
  case (Bisection av bv)
  with assms show ?thesis using bisection_shape[of maxit f av bv tol out xr fr its] by simp
next
  case (RegulaFalsi av bv)
  with assms show ?thesis using regula_falsi_shape[of maxit f av bv tol out xr fr its] by simp
next
  case (Secant x0v x1v)
  with assms show ?thesis using secant_shape[of maxit f x0v x1v tol out xr fr its] by simp
next
  case (NewtonRaphson x0v)
  with assms show ?thesis using newton_raphson_shape[of maxit f df x0v tol out xr fr its] by simp
next
  case (FixedPoint x0v)
  with assms show ?thesis using fixed_point_shape[of maxit g x0v tol out xr fr its] by simp
next
  case (ModifiedSecant x0v delta)
  with assms show ?thesis
    using modified_secant_shape[of maxit f x0v delta tol out xr fr its] by simp
qed

section \<open>Evaluating concrete runs\<close>

lemmas model_defs = bnd_def attempt_def attempt_cli_def lookup_local_def range1_def
  print_iter_header_def print_row_def update_bracket_def slide_def perturb_of_def fdiv_def
  isnan_def Let_def

lemma upto_1_numeral: "[1..numeral n] = 1 # [2..numeral n]"
  by (simp add: upto_rec1)

lemma secant_list_sqrt2:
  "secant_list f_sq_minus_2 (Fin 1) (Fin 2) (Fin (1 / 100)) 5 =
     Inr (secant_rows, Fin (58 / 41), Fin (2 / 1681), 3)"
  by (simp add: secant_list_def secant_list_body_def f_sq_minus_2_def secant_rows_def
        model_defs upto_1_numeral)

lemma secant_sqrt2:
  "secant f_sq_minus_2 (Fin 1) (Fin 2) (Fin (1 / 100)) 5 =
     ([Header, Dashes] @ map Printed secant_rows, Inr (Fin (58 / 41), Fin (2 / 1681), 3))"
  by (simp add: secant_def secant_body_def f_sq_minus_2_def secant_rows_def
        model_defs upto_1_numeral)

lemma printed_rows_map: "printed_rows (map Printed rs) = rs"
  by (induction rs) simp_all

lemma last_index:
  assumes "trace_ok rows xr fr its"
  shows "row_index (last rows) = its"
proof -
  have pos: "1 \<le> its" using assms by (rule trace_ok_pos)
  have ne: "rows \<noteq> []" and m: "map row_index rows = [1..its]"
    using assms by (simp_all add: trace_ok_def)
  have "row_index (last rows) = last (map row_index rows)"
    using ne by (rule last_map[symmetric])
  also have "\<dots> = last [1..its]" by (simp only: m)
  also have "\<dots> = its" using pos by (simp add: upto_rec2)
  finally show ?thesis .
qed

section \<open>Where the two variants agree\<close>

text \<open>
  Regula Falsi, Secant, Newton-Raphson and Modified Secant behave alike in the two
  variants on every input. Bisection does when neither endpoint value is \<open>NaN\<close>, and the
  fixed point does when \<open>g\<close> never raises.
\<close>

lemma agree_same_outcome: "agree cr wr \<Longrightarrow> same_outcome cr wr"
  by (auto simp: agree_def same_outcome_def split: sum.splits)

lemma for_loop_rel:
  assumes "Rs s t"
    and "\<And>k s t. Rs s t \<Longrightarrow> rel_outcome Rs Rr Rx (body1 k s) (body2 k t)"
  shows "rel_outcome Rs Rr Rx (for_loop body1 ks s) (for_loop body2 ks t)"
  using assms(1)
proof (induction ks arbitrary: s t)
  case Nil
  then show ?case by simp
next
  case (Cons k ks)
  from assms(2)[OF Cons.prems, of k] Cons.IH show ?case
    by (cases "body1 k s"; cases "body2 k t") simp_all
qed

lemma regula_falsi_bodies:
  assumes "state_rel bracket_rel s t"
  shows "rel_outcome (state_rel bracket_rel) return_rel raise_rel
           (regula_falsi_body f tol k s) (regula_falsi_list_body f tol k t)"
  using assms
  by (cases s; cases t)
     (auto simp: regula_falsi_body_def regula_falsi_list_body_def state_rel_def bracket_rel_def
        return_rel_def raise_rel_def attempt_def attempt_cli_def Let_def update_bracket_def
        printed_rows_print_row split: sum.splits)

lemma secant_bodies:
  assumes "state_rel (=) s t"
  shows "rel_outcome (state_rel (=)) return_rel raise_rel
           (secant_body f tol k s) (secant_list_body f tol k t)"
  using assms
  by (cases s; cases t)
     (auto simp: secant_body_def secant_list_body_def state_rel_def 
        return_rel_def raise_rel_def attempt_def attempt_cli_def Let_def 
        printed_rows_print_row split: sum.splits)

lemma newton_bodies:
  assumes "state_rel (=) s t"
  shows "rel_outcome (state_rel (=)) return_rel raise_rel
           (newton_raphson_body f df tol k s) (newton_list_body f df tol k t)"
  using assms
  by (cases s; cases t)
     (auto simp: newton_raphson_body_def newton_list_body_def state_rel_def 
        return_rel_def raise_rel_def attempt_def attempt_cli_def Let_def 
        printed_rows_print_row split: sum.splits)

lemma modified_secant_bodies:
  assumes "state_rel (=) s t"
  shows "rel_outcome (state_rel (=)) return_rel raise_rel
           (modified_secant_body f x0v delta tol k s) (modified_secant_list_body f x0v delta tol k t)"
  using assms
  by (cases s; cases t)
     (auto simp: modified_secant_body_def modified_secant_list_body_def state_rel_def 
        return_rel_def raise_rel_def attempt_def attempt_cli_def Let_def 
        printed_rows_print_row split: sum.splits)


lemma bisection_bodies:
  assumes "state_rel bracket_rel s t"
  shows "rel_outcome (state_rel bracket_rel) return_rel raise_rel
           (bisection_body f tol k s) (bisection_list_body f tol k t)"
  using assms
  by (cases s; cases t)
     (auto simp: bisection_body_def bisection_list_body_def state_rel_def bracket_rel_def
        return_rel_def raise_rel_def attempt_def attempt_cli_def Let_def update_bracket_def
        printed_rows_print_row split: sum.splits)

lemma fixed_point_bodies:
  assumes "state_rel (=) s t" "\<And>x. \<exists>v. g x = Inr v"
  shows "rel_outcome (state_rel (=)) return_rel raise_rel
           (fixed_point_body g tol k s) (fixed_point_list_body g tol k t)"
proof (cases s; cases t)
  fix out xi rows xi'
  assume st: "s = (out, xi)" "t = (rows, xi')"
  obtain xn where xn: "g xi = Inr xn" using assms(2) by blast
  obtain v where v: "g xn = Inr v" using assms(2) by blast
  show ?thesis using assms(1) st xn v
    by (auto simp: fixed_point_body_def fixed_point_list_body_def state_rel_def
          return_rel_def attempt_def attempt_cli_def Let_def printed_rows_print_row)
qed

lemma regula_falsi_agree:
  "agree (regula_falsi f av bv tol maxit) (regula_falsi_list f av bv tol maxit)"
proof (cases "f av")
  case (Inl e)
  then show ?thesis by (simp add: agree_def regula_falsi_def regula_falsi_list_def bnd_def)
next
  case fav: (Inr fav)
  show ?thesis
  proof (cases "f bv")
    case (Inl e)
    then show ?thesis using fav
      by (simp add: agree_def regula_falsi_def regula_falsi_list_def bnd_def)
  next
    case fbv: (Inr fbv)
    let ?s = "(print_iter_header [], \<lparr>a = av, b = bv, fa = fav, fb = fbv, c = Some av, fc = None\<rparr>)"
    let ?t = "([], \<lparr>a = av, b = bv, fa = fav, fb = fbv, c = None, fc = None\<rparr>)"
    have "rel_outcome (state_rel bracket_rel) return_rel raise_rel
            (for_loop (regula_falsi_body f tol) (range1 maxit) ?s)
            (for_loop (regula_falsi_list_body f tol) (range1 maxit) ?t)"
      by (rule for_loop_rel[OF _ regula_falsi_bodies])
         (simp add: state_rel_def bracket_rel_def printed_rows_header)
    then show ?thesis using fav fbv
      by (cases "for_loop (regula_falsi_body f tol) (range1 maxit) ?s";
          cases "for_loop (regula_falsi_list_body f tol) (range1 maxit) ?t")
         (auto simp: agree_def regula_falsi_def regula_falsi_list_def bnd_def state_rel_def
            bracket_rel_def return_rel_def raise_rel_def lookup_local_def
            split: option.splits)
  qed
qed


lemma bisection_agree:
  assumes "f av \<noteq> Inr NaN" "f bv \<noteq> Inr NaN"
  shows "agree (bisection f av bv tol maxit) (bisection_list f av bv tol maxit)"
proof (cases "f av")
  case (Inl e)
  then show ?thesis by (simp add: agree_def bisection_def bisection_list_def bnd_def)
next
  case fav: (Inr fav)
  show ?thesis
  proof (cases "f bv")
    case (Inl e)
    then show ?thesis using fav
      by (simp add: agree_def bisection_def bisection_list_def bnd_def)
  next
    case fbv: (Inr fbv)
    have nn: "\<not> isnan fav" "\<not> isnan fbv" using assms fav fbv by (simp_all add: isnan_def)
    let ?s = "(print_iter_header [], \<lparr>a = av, b = bv, fa = fav, fb = fbv, c = Some av, fc = None\<rparr>)"
    let ?t = "([], \<lparr>a = av, b = bv, fa = fav, fb = fbv, c = None, fc = None\<rparr>)"
    have "rel_outcome (state_rel bracket_rel) return_rel raise_rel
            (for_loop (bisection_body f tol) (range1 maxit) ?s)
            (for_loop (bisection_list_body f tol) (range1 maxit) ?t)"
      by (rule for_loop_rel[OF _ bisection_bodies])
         (simp add: state_rel_def bracket_rel_def printed_rows_header)
    then show ?thesis using fav fbv nn
      by (cases "for_loop (bisection_body f tol) (range1 maxit) ?s";
          cases "for_loop (bisection_list_body f tol) (range1 maxit) ?t")
         (auto simp: agree_def bisection_def bisection_list_def bnd_def state_rel_def
            bracket_rel_def return_rel_def raise_rel_def lookup_local_def
            split: option.splits)
  qed
qed

lemma secant_agree:
  "agree (secant f x0v x1v tol maxit) (secant_list f x0v x1v tol maxit)"
proof (cases "f x0v")
  case (Inl e)
  then show ?thesis by (simp add: agree_def secant_def secant_list_def bnd_def Let_def)
next
  case f0v: (Inr f0v)
  show ?thesis
  proof (cases "f x1v")
    case (Inl e)
    then show ?thesis using f0v
      by (simp add: agree_def secant_def secant_list_def bnd_def Let_def)
  next
    case f1v: (Inr f1v)
    let ?w = "\<lparr>x0 = x0v, x1 = x1v, f0 = f0v, f1 = f1v, x2 = None, fx2 = None\<rparr>"
    have "rel_outcome (state_rel (=)) return_rel raise_rel
            (for_loop (secant_body f tol) (range1 maxit) (print_iter_header [], ?w))
            (for_loop (secant_list_body f tol) (range1 maxit) ([], ?w))"
      by (rule for_loop_rel[OF _ secant_bodies]) (simp add: state_rel_def printed_rows_header)
    then show ?thesis using f0v f1v
      by (cases "for_loop (secant_body f tol) (range1 maxit) (print_iter_header [], ?w)";
          cases "for_loop (secant_list_body f tol) (range1 maxit) ([], ?w)")
         (auto simp: agree_def secant_def secant_list_def bnd_def Let_def state_rel_def
            return_rel_def raise_rel_def lookup_local_def split: option.splits)
  qed
qed

lemma newton_agree:
  "agree (newton_raphson f df x0v tol maxit) (newton_list f df x0v tol maxit)"
proof -
  have "rel_outcome (state_rel (=)) return_rel raise_rel
          (for_loop (newton_raphson_body f df tol) (range1 maxit) (print_iter_header [], x0v))
          (for_loop (newton_list_body f df tol) (range1 maxit) ([], x0v))"
    by (rule for_loop_rel[OF _ newton_bodies]) (simp add: state_rel_def printed_rows_header)
  then show ?thesis
    by (cases "for_loop (newton_raphson_body f df tol) (range1 maxit) (print_iter_header [], x0v)";
        cases "for_loop (newton_list_body f df tol) (range1 maxit) ([], x0v)")
       (auto simp: agree_def newton_raphson_def newton_list_def bnd_def state_rel_def
          return_rel_def raise_rel_def split: sum.splits)
qed

lemma modified_secant_agree:
  "agree (modified_secant f x0v delta tol maxit) (modified_secant_list f x0v delta tol maxit)"
proof -
  have "rel_outcome (state_rel (=)) return_rel raise_rel
          (for_loop (modified_secant_body f x0v delta tol) (range1 maxit) (print_iter_header [], x0v))
          (for_loop (modified_secant_list_body f x0v delta tol) (range1 maxit) ([], x0v))"
    by (rule for_loop_rel[OF _ modified_secant_bodies])
       (simp add: state_rel_def printed_rows_header)
  then show ?thesis
    by (cases "for_loop (modified_secant_body f x0v delta tol) (range1 maxit) (print_iter_header [], x0v)";
        cases "for_loop (modified_secant_list_body f x0v delta tol) (range1 maxit) ([], x0v)")
       (auto simp: agree_def modified_secant_def modified_secant_list_def bnd_def state_rel_def
          return_rel_def raise_rel_def split: sum.splits)
qed

lemma fixed_point_agree:
  assumes "\<And>x. \<exists>v. g x = Inr v"
  shows "agree (fixed_point g x0v tol maxit) (fixed_point_list g x0v tol maxit)"
proof -
  have "rel_outcome (state_rel (=)) return_rel raise_rel
          (for_loop (fixed_point_body g tol) (range1 maxit) (print_iter_header [], x0v))
          (for_loop (fixed_point_list_body g tol) (range1 maxit) ([], x0v))"
    by (rule for_loop_rel[where Rs = "state_rel (=)"])
       (simp_all add: state_rel_def printed_rows_header fixed_point_bodies[OF _ assms, unfolded state_rel_def])
  then show ?thesis
    by (cases "for_loop (fixed_point_body g tol) (range1 maxit) (print_iter_header [], x0v)";
        cases "for_loop (fixed_point_list_body g tol) (range1 maxit) ([], x0v)")
       (auto simp: agree_def fixed_point_def fixed_point_list_def bnd_def state_rel_def
          return_rel_def raise_rel_def split: sum.splits)
qed

section \<open>Exhausting the loop\<close>

text \<open>
  When the loop runs through all \<open>maxit \<ge> 1\<close> passes without returning or raising, the
  statement after it returns the estimate and function value of the last row with the
  iteration count \<open>maxit\<close>. This holds for every loop but the command-line fixed point,
  whose final statement evaluates \<open>g\<close> once more and raises when that evaluation does.
\<close>

lemma bisection_list_exhausted:
  assumes "1 \<le> maxit" "f av = Inr fav" "f bv = Inr fbv" "\<not> flt (Fin 0) (fmul fav fbv)"
    and "for_loop (bisection_list_body f tol) (range1 maxit)
           ([], \<lparr>a = av, b = bv, fa = fav, fb = fbv, c = None, fc = None\<rparr>) =
         Continue (rows, st)"
  shows "bisection_list f av bv tol maxit =
           Inr (rows, row_estimate (last rows), row_value (last rows), maxit)"
proof -
  have "case for_loop (bisection_list_body f tol) (range1 maxit)
               ([], \<lparr>a = av, b = bv, fa = fav, fb = fbv, c = None, fc = None\<rparr>) of
           Continue s' \<Rightarrow> loop_inv maxit (fst s') (c (snd s')) (fc (snd s'))
         | Return r \<Rightarrow> (\<exists>k. 1 \<le> k \<and> k \<le> maxit \<and> returned_at k r)
         | Raise e \<Rightarrow> True"
    by (rule loop_shape[OF assms(1)]) (simp_all add: loop_inv_start bisection_list_body_step)
  then show ?thesis
    using assms by (simp add: bisection_list_def bnd_def lookup_local_def loop_inv_def)
qed

lemma bisection_exhausted:
  assumes "1 \<le> maxit" "f av = Inr fav" "f bv = Inr fbv" "\<not> isnan fav" "\<not> isnan fbv"
    "\<not> flt (Fin 0) (fmul fav fbv)"
    and "for_loop (bisection_body f tol) (range1 maxit)
           (print_iter_header [], \<lparr>a = av, b = bv, fa = fav, fb = fbv, c = Some av, fc = None\<rparr>) =
         Continue (out, st)"
  shows "bisection f av bv tol maxit =
           (out, Inr (row_estimate (last (printed_rows out)), row_value (last (printed_rows out)), maxit))"
proof -
  have "case for_loop (bisection_body f tol) (range1 maxit)
               (print_iter_header [], \<lparr>a = av, b = bv, fa = fav, fb = fbv, c = Some av, fc = None\<rparr>) of
           Continue s' \<Rightarrow> loop_inv maxit (printed_rows (fst s')) (c (snd s')) (fc (snd s'))
         | Return r \<Rightarrow> (\<exists>k. 1 \<le> k \<and> k \<le> maxit \<and> returned_at_cli k r)
         | Raise e \<Rightarrow> True"
    by (rule loop_shape[OF assms(1)]) (simp_all add: loop_inv_start printed_rows_header bisection_body_step)
  then show ?thesis
    using assms by (simp add: bisection_def bnd_def lookup_local_def loop_inv_def)
qed

lemma regula_falsi_list_exhausted:
  assumes "1 \<le> maxit" "f av = Inr fav" "f bv = Inr fbv" "\<not> flt (Fin 0) (fmul fav fbv)"
    and "for_loop (regula_falsi_list_body f tol) (range1 maxit)
           ([], \<lparr>a = av, b = bv, fa = fav, fb = fbv, c = None, fc = None\<rparr>) =
         Continue (rows, st)"
  shows "regula_falsi_list f av bv tol maxit =
           Inr (rows, row_estimate (last rows), row_value (last rows), maxit)"
proof -
  have "case for_loop (regula_falsi_list_body f tol) (range1 maxit)
               ([], \<lparr>a = av, b = bv, fa = fav, fb = fbv, c = None, fc = None\<rparr>) of
           Continue s' \<Rightarrow> loop_inv maxit (fst s') (c (snd s')) (fc (snd s'))
         | Return r \<Rightarrow> (\<exists>k. 1 \<le> k \<and> k \<le> maxit \<and> returned_at k r)
         | Raise e \<Rightarrow> True"
    by (rule loop_shape[OF assms(1)]) (simp_all add: loop_inv_start regula_falsi_list_body_step)
  then show ?thesis
    using assms by (simp add: regula_falsi_list_def bnd_def lookup_local_def loop_inv_def)
qed

lemma regula_falsi_exhausted:
  assumes "1 \<le> maxit" "f av = Inr fav" "f bv = Inr fbv" "\<not> flt (Fin 0) (fmul fav fbv)"
    and "for_loop (regula_falsi_body f tol) (range1 maxit)
           (print_iter_header [], \<lparr>a = av, b = bv, fa = fav, fb = fbv, c = Some av, fc = None\<rparr>) =
         Continue (out, st)"
  shows "regula_falsi f av bv tol maxit =
           (out, Inr (row_estimate (last (printed_rows out)), row_value (last (printed_rows out)), maxit))"
proof -
  have "case for_loop (regula_falsi_body f tol) (range1 maxit)
               (print_iter_header [], \<lparr>a = av, b = bv, fa = fav, fb = fbv, c = Some av, fc = None\<rparr>) of
           Continue s' \<Rightarrow> loop_inv maxit (printed_rows (fst s')) (c (snd s')) (fc (snd s'))
         | Return r \<Rightarrow> (\<exists>k. 1 \<le> k \<and> k \<le> maxit \<and> returned_at_cli k r)
         | Raise e \<Rightarrow> True"
    by (rule loop_shape[OF assms(1)]) (simp_all add: loop_inv_start printed_rows_header regula_falsi_body_step)
  then show ?thesis
    using assms by (simp add: regula_falsi_def bnd_def lookup_local_def loop_inv_def)
qed

lemma secant_list_exhausted:
  assumes "1 \<le> maxit" "f x0v = Inr f0v" "f x1v = Inr f1v"
    and "for_loop (secant_list_body f tol) (range1 maxit)
           ([], \<lparr>x0 = x0v, x1 = x1v, f0 = f0v, f1 = f1v, x2 = None, fx2 = None\<rparr>) =
         Continue (rows, st)"
  shows "secant_list f x0v x1v tol maxit =
           Inr (rows, row_estimate (last rows), row_value (last rows), maxit)"
proof -
  have "case for_loop (secant_list_body f tol) (range1 maxit)
               ([], \<lparr>x0 = x0v, x1 = x1v, f0 = f0v, f1 = f1v, x2 = None, fx2 = None\<rparr>) of
           Continue s' \<Rightarrow> loop_inv maxit (fst s') (x2 (snd s')) (fx2 (snd s'))
         | Return r \<Rightarrow> (\<exists>k. 1 \<le> k \<and> k \<le> maxit \<and> returned_at k r)
         | Raise e \<Rightarrow> True"
    by (rule loop_shape[OF assms(1)]) (simp_all add: loop_inv_start secant_list_body_step)
  then show ?thesis
    using assms by (simp add: secant_list_def Let_def bnd_def lookup_local_def loop_inv_def)
qed

lemma secant_exhausted:
  assumes "1 \<le> maxit" "f x0v = Inr f0v" "f x1v = Inr f1v"
    and "for_loop (secant_body f tol) (range1 maxit)
           (print_iter_header [], \<lparr>x0 = x0v, x1 = x1v, f0 = f0v, f1 = f1v, x2 = None, fx2 = None\<rparr>) =
         Continue (out, st)"
  shows "secant f x0v x1v tol maxit =
           (out, Inr (row_estimate (last (printed_rows out)), row_value (last (printed_rows out)), maxit))"
proof -
  have "case for_loop (secant_body f tol) (range1 maxit)
               (print_iter_header [], \<lparr>x0 = x0v, x1 = x1v, f0 = f0v, f1 = f1v, x2 = None, fx2 = None\<rparr>) of
           Continue s' \<Rightarrow> loop_inv maxit (printed_rows (fst s')) (x2 (snd s')) (fx2 (snd s'))
         | Return r \<Rightarrow> (\<exists>k. 1 \<le> k \<and> k \<le> maxit \<and> returned_at_cli k r)
         | Raise e \<Rightarrow> True"
    by (rule loop_shape[OF assms(1)]) (simp_all add: loop_inv_start printed_rows_header secant_body_step)
  then show ?thesis
    using assms by (simp add: secant_def Let_def bnd_def lookup_local_def loop_inv_def)
qed

lemma newton_list_exhausted:
  assumes "1 \<le> maxit"
    and "for_loop (newton_list_body f df tol) (range1 maxit) ([], x0v) = Continue (rows, xi)"
  shows "newton_list f df x0v tol maxit =
           Inr (rows, row_estimate (last rows), row_value (last rows), maxit)"
proof -
  have "case for_loop (newton_list_body f df tol) (range1 maxit) ([], x0v) of
           Continue s' \<Rightarrow> loop_inv maxit (fst s') (Some (snd s')) (value_at f (snd s'))
         | Return r \<Rightarrow> (\<exists>k. 1 \<le> k \<and> k \<le> maxit \<and> returned_at k r)
         | Raise e \<Rightarrow> True"
    by (rule loop_shape[OF assms(1)]) (simp_all add: loop_inv_start newton_list_body_step)
  then show ?thesis
    using assms
    by (auto simp: newton_list_def bnd_def loop_inv_def value_at_def split: sum.splits)
qed

lemma newton_raphson_exhausted:
  assumes "1 \<le> maxit"
    and "for_loop (newton_raphson_body f df tol) (range1 maxit) (print_iter_header [], x0v) = Continue (out, xi)"
  shows "newton_raphson f df x0v tol maxit =
           (out, Inr (row_estimate (last (printed_rows out)), row_value (last (printed_rows out)), maxit))"
proof -
  have "case for_loop (newton_raphson_body f df tol) (range1 maxit) (print_iter_header [], x0v) of
           Continue s' \<Rightarrow> loop_inv maxit (printed_rows (fst s')) (Some (snd s')) (value_at f (snd s'))
         | Return r \<Rightarrow> (\<exists>k. 1 \<le> k \<and> k \<le> maxit \<and> returned_at_cli k r)
         | Raise e \<Rightarrow> True"
    by (rule loop_shape[OF assms(1)]) (simp_all add: loop_inv_start printed_rows_header newton_raphson_body_step)
  then show ?thesis
    using assms
    by (auto simp: newton_raphson_def bnd_def loop_inv_def value_at_def split: sum.splits)
qed

lemma fixed_point_list_exhausted:
  assumes "1 \<le> maxit"
    and "for_loop (fixed_point_list_body g tol) (range1 maxit) ([], x0v) = Continue (rows, xi)"
  shows "fixed_point_list g x0v tol maxit =
           Inr (rows, row_estimate (last rows), row_value (last rows), maxit)"
proof -
  have "case for_loop (fixed_point_list_body g tol) (range1 maxit) ([], x0v) of
           Continue s' \<Rightarrow> loop_inv maxit (fst s') (Some (snd s')) (value_at g (snd s'))
         | Return r \<Rightarrow> (\<exists>k. 1 \<le> k \<and> k \<le> maxit \<and> returned_at k r)
         | Raise e \<Rightarrow> True"
    by (rule loop_shape[OF assms(1)]) (simp_all add: loop_inv_start fixed_point_list_body_step)
  then show ?thesis
    using assms
    by (auto simp: fixed_point_list_def bnd_def loop_inv_def value_at_def split: sum.splits)
qed

lemma modified_secant_list_exhausted:
  assumes "1 \<le> maxit"
    and "for_loop (modified_secant_list_body f x0v delta tol) (range1 maxit) ([], x0v) = Continue (rows, xi)"
  shows "modified_secant_list f x0v delta tol maxit =
           Inr (rows, row_estimate (last rows), row_value (last rows), maxit)"
proof -
  have "case for_loop (modified_secant_list_body f x0v delta tol) (range1 maxit) ([], x0v) of
           Continue s' \<Rightarrow> loop_inv maxit (fst s') (Some (snd s')) (value_at f (snd s'))
         | Return r \<Rightarrow> (\<exists>k. 1 \<le> k \<and> k \<le> maxit \<and> returned_at k r)
         | Raise e \<Rightarrow> True"
    by (rule loop_shape[OF assms(1)]) (simp_all add: loop_inv_start modified_secant_list_body_step)
  then show ?thesis
    using assms
    by (auto simp: modified_secant_list_def bnd_def loop_inv_def value_at_def split: sum.splits)
qed

lemma modified_secant_exhausted:
  assumes "1 \<le> maxit"
    and "for_loop (modified_secant_body f x0v delta tol) (range1 maxit) (print_iter_header [], x0v) = Continue (out, xi)"
  shows "modified_secant f x0v delta tol maxit =
           (out, Inr (row_estimate (last (printed_rows out)), row_value (last (printed_rows out)), maxit))"
proof -
  have "case for_loop (modified_secant_body f x0v delta tol) (range1 maxit) (print_iter_header [], x0v) of
           Continue s' \<Rightarrow> loop_inv maxit (printed_rows (fst s')) (Some (snd s')) (value_at f (snd s'))
         | Return r \<Rightarrow> (\<exists>k. 1 \<le> k \<and> k \<le> maxit \<and> returned_at_cli k r)
         | Raise e \<Rightarrow> True"
    by (rule loop_shape[OF assms(1)]) (simp_all add: loop_inv_start printed_rows_header modified_secant_body_step)
  then show ?thesis
    using assms
    by (auto simp: modified_secant_def bnd_def loop_inv_def value_at_def split: sum.splits)
qed

lemma fixed_point_exhausted:
  assumes "1 \<le> maxit"
    and "for_loop (fixed_point_body g tol) (range1 maxit) (print_iter_header [], x0v) = Continue (out, xi)"
  shows "xi = row_estimate (last (printed_rows out))"
    and "fixed_point g x0v tol maxit =
           (out, case g xi of Inl e \<Rightarrow> Inl e | Inr v \<Rightarrow> Inr (xi, v, maxit))"
proof -
  have "case for_loop (fixed_point_body g tol) (range1 maxit) (print_iter_header [], x0v) of
           Continue s' \<Rightarrow> loop_inv maxit (printed_rows (fst s')) (Some (snd s'))
                             (Some (shown_value g (snd s')))
         | Return r \<Rightarrow> (\<exists>k. 1 \<le> k \<and> k \<le> maxit \<and> returned_at_cli k r)
         | Raise e \<Rightarrow> True"
    by (rule loop_shape[OF assms(1)])
       (simp_all add: loop_inv_start printed_rows_header fixed_point_body_step)
  then show "xi = row_estimate (last (printed_rows out))"
    using assms by (simp add: loop_inv_def)
  show "fixed_point g x0v tol maxit =
           (out, case g xi of Inl e \<Rightarrow> Inl e | Inr v \<Rightarrow> Inr (xi, v, maxit))"
    using assms by (simp add: fixed_point_def bnd_def)
qed

section \<open>The claims\<close>

text \<open>
  C9. A run that returns (with \<open>maxit \<ge> 1\<close>) has produced at least one row; the returned
  estimate is the estimate of the last row, the returned iteration count is the index of
  the last row, and the indices of the rows are exactly \<open>1, ..., its\<close>. This holds for
  all six methods, for the rows the web variant collects and for the rows the
  command-line variant prints.
\<close>

theorem result_is_last_row:
  assumes "1 \<le> maxit"
  shows "(run_web f df g tol maxit m = Inr (rows, xr, fr, its) \<longrightarrow>
            rows \<noteq> [] \<and> row_estimate (last rows) = xr \<and> row_index (last rows) = its \<and>
            map row_index rows = [1..its]) \<and>
         (run_cli f df g tol maxit m = (out, Inr (xr, fr, its)) \<longrightarrow>
            printed_rows out \<noteq> [] \<and> row_estimate (last (printed_rows out)) = xr \<and>
            row_index (last (printed_rows out)) = its \<and>
            map row_index (printed_rows out) = [1..its])"
proof (intro conjI impI)
  assume r: "run_web f df g tol maxit m = Inr (rows, xr, fr, its)"
  have t: "trace_ok rows xr fr its" using run_web_shape[OF assms r] by simp
  show "rows \<noteq> []" "row_estimate (last rows) = xr" "map row_index rows = [1..its]"
    using t by (simp_all add: trace_ok_def)
  show "row_index (last rows) = its" using t by (rule last_index)
next
  assume r: "run_cli f df g tol maxit m = (out, Inr (xr, fr, its))"
  have t: "trace_ok (printed_rows out) xr fr its" using run_cli_shape[OF assms r] by simp
  show "printed_rows out \<noteq> []" "row_estimate (last (printed_rows out)) = xr"
       "map row_index (printed_rows out) = [1..its]"
    using t by (simp_all add: trace_ok_def)
  show "row_index (last (printed_rows out)) = its" using t by (rule last_index)
qed

theorem result_is_last_row_witness:
  "(1::int) \<le> 5 \<and>
   run_web f_sq_minus_2 df_sq_plus_1 g_recip (Fin (1 / 100)) 5 (Secant (Fin 1) (Fin 2)) =
     Inr (secant_rows, Fin (58 / 41), Fin (2 / 1681), 3) \<and>
   run_cli f_sq_minus_2 df_sq_plus_1 g_recip (Fin (1 / 100)) 5 (Secant (Fin 1) (Fin 2)) =
     ([Header, Dashes] @ map Printed secant_rows, Inr (Fin (58 / 41), Fin (2 / 1681), 3)) \<and>
   row_estimate (last secant_rows) = Fin (58 / 41) \<and> row_index (last secant_rows) = 3 \<and>
   map row_index secant_rows = [1..3]"
proof -
  have h: "(1::int) \<le> 5" by simp
  have w: "run_web f_sq_minus_2 df_sq_plus_1 g_recip (Fin (1 / 100)) 5 (Secant (Fin 1) (Fin 2)) =
     Inr (secant_rows, Fin (58 / 41), Fin (2 / 1681), 3)"
    by (simp add: secant_list_sqrt2)
  have c: "run_cli f_sq_minus_2 df_sq_plus_1 g_recip (Fin (1 / 100)) 5 (Secant (Fin 1) (Fin 2)) =
     ([Header, Dashes] @ map Printed secant_rows, Inr (Fin (58 / 41), Fin (2 / 1681), 3))"
    by (simp add: secant_sqrt2)
  from result_is_last_row[OF h, of f_sq_minus_2 df_sq_plus_1 g_recip "Fin (1 / 100)"
      "Secant (Fin 1) (Fin 2)" secant_rows "Fin (58 / 41)" "Fin (2 / 1681)" 3
      "[Header, Dashes] @ map Printed secant_rows"] w c h
  show ?thesis by (simp add: printed_rows_append printed_rows_map)
qed

lemma range1_unfold: "1 \<le> maxit \<Longrightarrow> range1 maxit = 1 # [2..maxit]"
  by (simp add: range1_def upto_rec1)

lemma fsub_zero_iff: "(fsub x y = Fin 0) = (\<exists>p. x = Fin p \<and> y = Fin p)"
  by (cases x; cases y) auto

lemma newton_zero_derivative_first:
  assumes "1 \<le> maxit" "f x0v = Inr v" "df x0v = Inr (Fin 0)"
  shows "newton_raphson f df x0v tol maxit =
           ([Header, Dashes], Inl (Exn ZeroDivisionError ''Zero derivative encountered in Newton-Raphson.''))"
    and "newton_list f df x0v tol maxit = Inl (Exn ZeroDivisionError ''Zero derivative in Newton.'')"
  using assms
  by (simp_all add: newton_raphson_def newton_raphson_body_def newton_list_def newton_list_body_def
        range1_unfold attempt_def attempt_cli_def print_iter_header_def)

text \<open>
  C10. With \<open>maxit \<ge> 1\<close>, a run that returns has gone through the loop body at least
  once: the iteration count is at least 1 and at least one row was produced, for every
  method and both variants; no method tests convergence before the loop. Newton-Raphson
  started at a root \<open>x0\<close> of \<open>f\<close> where the derivative is zero as well does not return
  \<open>x0\<close>: it raises the zero-derivative error in the first pass, before any row.
\<close>

theorem at_least_one_iteration:
  assumes "1 \<le> maxit"
  shows "(run_web f df g tol maxit m = Inr (rows, xr, fr, its) \<longrightarrow> 1 \<le> its \<and> rows \<noteq> []) \<and>
         (run_cli f df g tol maxit m = (out, Inr (xr, fr, its)) \<longrightarrow>
            1 \<le> its \<and> printed_rows out \<noteq> []) \<and>
         (f x0v = Inr (Fin 0) \<and> df x0v = Inr (Fin 0) \<longrightarrow>
            newton_raphson f df x0v tol maxit =
              ([Header, Dashes],
               Inl (Exn ZeroDivisionError ''Zero derivative encountered in Newton-Raphson.'')) \<and>
            newton_list f df x0v tol maxit =
              Inl (Exn ZeroDivisionError ''Zero derivative in Newton.''))"
proof (intro conjI impI)
  assume r: "run_web f df g tol maxit m = Inr (rows, xr, fr, its)"
  have t: "trace_ok rows xr fr its" using run_web_shape[OF assms r] by simp
  show "1 \<le> its" using t by (rule trace_ok_pos)
  show "rows \<noteq> []" using t by (simp add: trace_ok_def)
next
  assume r: "run_cli f df g tol maxit m = (out, Inr (xr, fr, its))"
  have t: "trace_ok (printed_rows out) xr fr its" using run_cli_shape[OF assms r] by simp
  show "1 \<le> its" using t by (rule trace_ok_pos)
  show "printed_rows out \<noteq> []" using t by (simp add: trace_ok_def)
next
  assume z: "f x0v = Inr (Fin 0) \<and> df x0v = Inr (Fin 0)"
  show "newton_raphson f df x0v tol maxit =
          ([Header, Dashes],
           Inl (Exn ZeroDivisionError ''Zero derivative encountered in Newton-Raphson.''))"
    using newton_zero_derivative_first(1)[OF assms, of f x0v "Fin 0" df tol] z by simp
  show "newton_list f df x0v tol maxit = Inl (Exn ZeroDivisionError ''Zero derivative in Newton.'')"
    using newton_zero_derivative_first(2)[OF assms, of f x0v "Fin 0" df tol] z by simp
qed

theorem at_least_one_iteration_witness:
  "(1::int) \<le> 5 \<and>
   run_web f_sq_minus_2 df_sq_plus_1 g_recip (Fin (1 / 100)) 5 (Secant (Fin 1) (Fin 2)) =
     Inr (secant_rows, Fin (58 / 41), Fin (2 / 1681), 3) \<and>
   run_cli f_sq_minus_2 df_sq_plus_1 g_recip (Fin (1 / 100)) 5 (Secant (Fin 1) (Fin 2)) =
     ([Header, Dashes] @ map Printed secant_rows, Inr (Fin (58 / 41), Fin (2 / 1681), 3)) \<and>
   secant_rows \<noteq> [] \<and>
   f_sq (Fin 0) = Inr (Fin 0) \<and> df_sq_plus_1 (Fin 0) = Inr (Fin 0) \<and>
   newton_raphson f_sq df_sq_plus_1 (Fin 0) (Fin (1 / 100)) 5 =
     ([Header, Dashes],
      Inl (Exn ZeroDivisionError ''Zero derivative encountered in Newton-Raphson.'')) \<and>
   newton_list f_sq df_sq_plus_1 (Fin 0) (Fin (1 / 100)) 5 =
     Inl (Exn ZeroDivisionError ''Zero derivative in Newton.'')"
proof -
  have h: "(1::int) \<le> 5" by simp
  have w: "run_web f_sq_minus_2 df_sq_plus_1 g_recip (Fin (1 / 100)) 5 (Secant (Fin 1) (Fin 2)) =
     Inr (secant_rows, Fin (58 / 41), Fin (2 / 1681), 3)"
    by (simp add: secant_list_sqrt2)
  have c: "run_cli f_sq_minus_2 df_sq_plus_1 g_recip (Fin (1 / 100)) 5 (Secant (Fin 1) (Fin 2)) =
     ([Header, Dashes] @ map Printed secant_rows, Inr (Fin (58 / 41), Fin (2 / 1681), 3))"
    by (simp add: secant_sqrt2)
  have z: "f_sq (Fin 0) = Inr (Fin 0) \<and> df_sq_plus_1 (Fin 0) = Inr (Fin 0)"
    by (simp add: f_sq_def df_sq_plus_1_def)
  have a: "secant_rows \<noteq> []"
    using at_least_one_iteration[OF h, of f_sq_minus_2 df_sq_plus_1 g_recip "Fin (1 / 100)"
      "Secant (Fin 1) (Fin 2)" secant_rows "Fin (58 / 41)" "Fin (2 / 1681)" 3] w
    by simp
  have n: "newton_raphson f_sq df_sq_plus_1 (Fin 0) (Fin (1 / 100)) 5 =
     ([Header, Dashes],
      Inl (Exn ZeroDivisionError ''Zero derivative encountered in Newton-Raphson.'')) \<and>
   newton_list f_sq df_sq_plus_1 (Fin 0) (Fin (1 / 100)) 5 =
     Inl (Exn ZeroDivisionError ''Zero derivative in Newton.'')"
    using at_least_one_iteration[OF h, of f_sq df_sq_plus_1 g_recip "Fin (1 / 100)"
      "Secant (Fin 1) (Fin 2)" secant_rows "Fin (58 / 41)" "Fin (2 / 1681)" 3
      "[Header, Dashes] @ map Printed secant_rows" "Fin 0"] z
    by simp
  show ?thesis using h w c z a n by simp
qed

lemma feq_zero: "feq z (Fin 0) = (z = Fin 0)"
  by (cases z) simp_all

lemma secant_body_zero_difference:
  assumes "feq (fsub (f1 s) (f0 s)) (Fin 0)"
  shows "secant_body f tol k (out, s) =
           Raise (out, Exn ZeroDivisionError ''Division by zero in Secant method.'')"
    and "secant_list_body f tol k (rows, s) =
           Raise (Exn ZeroDivisionError ''Division by zero in Secant method.'')"
  using assms by (simp_all add: secant_body_def secant_list_body_def)

lemma secant_zero_difference_seeds:
  assumes "1 \<le> maxit" "f x0v = Inr v0" "f x1v = Inr v1" "feq (fsub v1 v0) (Fin 0)"
  shows "secant f x0v x1v tol maxit =
           ([Header, Dashes], Inl (Exn ZeroDivisionError ''Division by zero in Secant method.''))"
    and "secant_list f x0v x1v tol maxit =
           Inl (Exn ZeroDivisionError ''Division by zero in Secant method.'')"
  using assms
  by (simp_all add: secant_def secant_list_def secant_body_zero_difference range1_unfold bnd_def
        print_iter_header_def)


lemma newton_body_zero_derivative:
  assumes "f xi = Inr v" "df xi = Inr d" "feq d (Fin 0)"
  shows "newton_raphson_body f df tol k (out, xi) =
           Raise (out, Exn ZeroDivisionError ''Zero derivative encountered in Newton-Raphson.'')"
    and "newton_list_body f df tol k (rows, xi) =
           Raise (Exn ZeroDivisionError ''Zero derivative in Newton.'')"
  using assms
  by (simp_all add: newton_raphson_body_def newton_list_body_def attempt_def attempt_cli_def)

lemma modified_secant_body_zero_denominator:
  assumes "f (fadd xi (perturb_of x0v delta)) = Inr u" "f xi = Inr v" "feq (fsub u v) (Fin 0)"
  shows "modified_secant_body f x0v delta tol k (out, xi) =
           Raise (out, Exn ZeroDivisionError ''Denominator zero in Modified Secant.'')"
    and "modified_secant_list_body f x0v delta tol k (rows, xi) =
           Raise (Exn ZeroDivisionError ''Denominator zero in Modified Secant.'')"
  using assms
  by (simp_all add: modified_secant_body_def modified_secant_list_body_def attempt_def
        attempt_cli_def Let_def)

lemma newton_sq_plus_1:
  "newton_raphson f_sq_plus_1 df_sq_plus_1 (Fin 0) (Fin (1 / 100000000)) 50 =
     ([Header, Dashes],
      Inl (Exn ZeroDivisionError ''Zero derivative encountered in Newton-Raphson.''))"
  by (rule newton_zero_derivative_first(1)[of _ _ _ "Fin 1"])
     (simp_all add: f_sq_plus_1_def df_sq_plus_1_def)

lemma secant_sq:
  "secant f_sq (Fin (- 1)) (Fin 1) (Fin (1 / 100000000)) 50 =
     ([Header, Dashes], Inl (Exn ZeroDivisionError ''Division by zero in Secant method.''))"
  by (rule secant_zero_difference_seeds(1)[of _ _ _ "Fin 1" _ "Fin 1"]) (simp_all add: f_sq_def)

text \<open>
  C7, as stated, fails. The claim says that the zero-derivative failure of Newton-Raphson
  is an error kind distinct from the zero-denominator failure of the secant methods. In
  the code both are raised as \<open>ZeroDivisionError\<close>: Newton-Raphson on \<open>x**2 + 1\<close> from
  \<open>x0 = 0\<close> and the secant method on \<open>x**2\<close> from the seeds -1 and 1 fail with the same
  class of exception.
\<close>

theorem zero_derivative_kind_counterexample:
  "failure_kind (newton_raphson f_sq_plus_1 df_sq_plus_1 (Fin 0) (Fin (1 / 100000000)) 50) =
     Some ZeroDivisionError \<and>
   failure_kind (secant f_sq (Fin (- 1)) (Fin 1) (Fin (1 / 100000000)) 50) =
     Some ZeroDivisionError \<and>
   \<not> (failure_kind (newton_raphson f_sq_plus_1 df_sq_plus_1 (Fin 0) (Fin (1 / 100000000)) 50) \<noteq>
      failure_kind (secant f_sq (Fin (- 1)) (Fin 1) (Fin (1 / 100000000)) 50))"
  by (simp add: newton_sq_plus_1 secant_sq failure_kind_def)

text \<open>
  C7, amended. The zero-derivative failure of Newton-Raphson and the zero-denominator
  failures of Secant and ModifiedSecant are all raised as the one kind
  \<open>ZeroDivisionError\<close>; what tells them apart is the message text only, which differs
  between Newton-Raphson and the two secant methods.
\<close>

theorem zero_division_same_kind:
  "(f xi = Inr v \<and> df xi = Inr d \<and> feq d (Fin 0) \<longrightarrow>
      newton_raphson_body f df tol k (out, xi) =
        Raise (out, Exn ZeroDivisionError ''Zero derivative encountered in Newton-Raphson.'') \<and>
      newton_list_body f df tol k (rows, xi) =
        Raise (Exn ZeroDivisionError ''Zero derivative in Newton.'')) \<and>
   (feq (fsub (f1 s) (f0 s)) (Fin 0) \<longrightarrow>
      secant_body f tol k (out, s) =
        Raise (out, Exn ZeroDivisionError ''Division by zero in Secant method.'') \<and>
      secant_list_body f tol k (rows, s) =
        Raise (Exn ZeroDivisionError ''Division by zero in Secant method.'')) \<and>
   (f (fadd xi (perturb_of x0v delta)) = Inr u \<and> f xi = Inr v \<and> feq (fsub u v) (Fin 0) \<longrightarrow>
      modified_secant_body f x0v delta tol k (out, xi) =
        Raise (out, Exn ZeroDivisionError ''Denominator zero in Modified Secant.'') \<and>
      modified_secant_list_body f x0v delta tol k (rows, xi) =
        Raise (Exn ZeroDivisionError ''Denominator zero in Modified Secant.'')) \<and>
   ''Zero derivative encountered in Newton-Raphson.'' \<noteq> ''Division by zero in Secant method.'' \<and>
   ''Zero derivative encountered in Newton-Raphson.'' \<noteq> ''Denominator zero in Modified Secant.'' \<and>
   ''Zero derivative in Newton.'' \<noteq> ''Division by zero in Secant method.'' \<and>
   ''Zero derivative in Newton.'' \<noteq> ''Denominator zero in Modified Secant.''"
proof (intro conjI impI)
  assume "f xi = Inr v \<and> df xi = Inr d \<and> feq d (Fin 0)"
  then show "newton_raphson_body f df tol k (out, xi) =
        Raise (out, Exn ZeroDivisionError ''Zero derivative encountered in Newton-Raphson.'')"
    and "newton_list_body f df tol k (rows, xi) =
        Raise (Exn ZeroDivisionError ''Zero derivative in Newton.'')"
    by (simp_all add: newton_body_zero_derivative)
next
  assume "feq (fsub (f1 s) (f0 s)) (Fin 0)"
  then show "secant_body f tol k (out, s) =
        Raise (out, Exn ZeroDivisionError ''Division by zero in Secant method.'')"
    and "secant_list_body f tol k (rows, s) =
        Raise (Exn ZeroDivisionError ''Division by zero in Secant method.'')"
    by (rule secant_body_zero_difference)+
next
  assume "f (fadd xi (perturb_of x0v delta)) = Inr u \<and> f xi = Inr v \<and> feq (fsub u v) (Fin 0)"
  then show "modified_secant_body f x0v delta tol k (out, xi) =
        Raise (out, Exn ZeroDivisionError ''Denominator zero in Modified Secant.'')"
    and "modified_secant_list_body f x0v delta tol k (rows, xi) =
        Raise (Exn ZeroDivisionError ''Denominator zero in Modified Secant.'')"
    by (simp_all add: modified_secant_body_zero_denominator)
qed simp_all

theorem zero_division_same_kind_witness:
  "f_sq (Fin (- 1)) = Inr (Fin 1) \<and> df_sq_plus_1 (Fin 0) = Inr (Fin 0) \<and> f_sq (Fin 0) = Inr (Fin 0) \<and>
   feq (Fin 0) (Fin 0) \<and> feq (fsub (f1 window_equal) (f0 window_equal)) (Fin 0) \<and>
   f_sq (fadd (Fin (- 1)) (perturb_of (Fin (- 1)) (Fin (- 2)))) = Inr (Fin 1) \<and>
   feq (fsub (Fin 1) (Fin 1)) (Fin 0) \<and>
   newton_raphson_body f_sq df_sq_plus_1 (Fin (1 / 100)) 1 ([Header, Dashes], Fin 0) =
     Raise ([Header, Dashes],
            Exn ZeroDivisionError ''Zero derivative encountered in Newton-Raphson.'') \<and>
   secant_body f_sq (Fin (1 / 100)) 1 ([Header, Dashes], window_equal) =
     Raise ([Header, Dashes], Exn ZeroDivisionError ''Division by zero in Secant method.'') \<and>
   modified_secant_body f_sq (Fin (- 1)) (Fin (- 2)) (Fin (1 / 100)) 1 ([Header, Dashes], Fin (- 1)) =
     Raise ([Header, Dashes], Exn ZeroDivisionError ''Denominator zero in Modified Secant.'')"
proof -
  have h: "f_sq (Fin (- 1)) = Inr (Fin 1) \<and> df_sq_plus_1 (Fin 0) = Inr (Fin 0) \<and>
      f_sq (Fin 0) = Inr (Fin 0) \<and> feq (Fin 0) (Fin 0) \<and>
      feq (fsub (f1 window_equal) (f0 window_equal)) (Fin 0) \<and>
      f_sq (fadd (Fin (- 1)) (perturb_of (Fin (- 1)) (Fin (- 2)))) = Inr (Fin 1) \<and>
      feq (fsub (Fin 1) (Fin 1)) (Fin 0)"
    by (simp add: f_sq_def df_sq_plus_1_def window_equal_def perturb_of_def)
  note n = zero_division_same_kind[of f_sq "Fin 0" "Fin 0" df_sq_plus_1 "Fin 0" "Fin (1 / 100)" 1
      "[Header, Dashes]" "[]" window_equal "Fin (- 1)" "Fin (- 2)" "Fin 1"]
  note m = zero_division_same_kind[of f_sq "Fin (- 1)" "Fin 1" df_sq_plus_1 "Fin 0" "Fin (1 / 100)" 1
      "[Header, Dashes]" "[]" window_equal "Fin (- 1)" "Fin (- 2)" "Fin 1"]
  show ?thesis using h n m by simp
qed

lemma update_bracket_from_sign_change:
  assumes "fa s = Fin x" "fb s = Fin y" "flt (fmul (fa s) (fb s)) (Fin 0)"
  shows "fle (fmul (fa (update_bracket s cv (Fin r))) (fb (update_bracket s cv (Fin r)))) (Fin 0)"
proof -
  from assms have neg: "x * y < 0" by simp
  show ?thesis
  proof (cases "x * r < 0")
    case True
    then show ?thesis using assms by (simp add: update_bracket_def)
  next
    case False
    then have "r * y \<le> 0" using neg
      by (auto simp: mult_less_0_iff mult_le_0_iff not_less)
    then show ?thesis using assms False by (simp add: update_bracket_def)
  qed
qed

lemma bisection_rejects:
  assumes "f av = Inr fav" "f bv = Inr fbv"
  shows "isnan fav \<or> isnan fbv \<Longrightarrow> bisection f av bv tol maxit =
           ([], Inl (Exn ValueError ''Function returned NaN on interval endpoints.''))"
    and "flt (Fin 0) (fmul fav fbv) \<Longrightarrow> bisection f av bv tol maxit =
           ([], Inl (Exn ValueError ''f(a) and f(b) must have opposite signs for bisection.''))"
    and "flt (Fin 0) (fmul fav fbv) \<Longrightarrow> bisection_list f av bv tol maxit =
           Inl (Exn ValueError ''f(a) and f(b) must have opposite signs for bisection.'')"
  using assms
  by (cases fav; cases fbv; simp add: bisection_def bisection_list_def bnd_def isnan_def)+

lemma bisection_sqrt_nan:
  "bisection f_sqrt_minus_2 (Fin (- 1)) (Fin 9) (Fin (1 / 100000000)) 50 =
     ([], Inl (Exn ValueError ''Function returned NaN on interval endpoints.''))"
  by (simp add: bisection_def f_sqrt_minus_2_def model_defs)

lemma bisection_list_sqrt_nan:
  "bisection_list f_sqrt_minus_2 (Fin (- 1)) (Fin 9) (Fin (1 / 100000000)) 50 =
     Inr ([(1, Fin 4, Fin 0, Fin 5, Interval (Fin (- 1)) (Fin 9))], Fin 4, Fin 0, 1)"
  by (simp add: bisection_list_def bisection_list_body_def f_sqrt_minus_2_def model_defs
        upto_1_numeral)

lemma fixed_point_recip:
  "fixed_point g_recip (Fin (5 / 2)) (Fin 1) 50 =
     ([Header, Dashes, Printed (1, Fin 2, NaN, Fin (1 / 2), GUsed)], Inr (Fin 2, NaN, 1))"
  by (simp add: fixed_point_def fixed_point_body_def g_recip_def model_defs upto_1_numeral)

lemma fixed_point_list_recip:
  "fixed_point_list g_recip (Fin (5 / 2)) (Fin 1) 50 =
     Inl (Exn ZeroDivisionError ''float division by zero'')"
  by (simp add: fixed_point_list_def fixed_point_list_body_def g_recip_def model_defs
        upto_1_numeral)

lemma fixed_point_body_guarded:
  assumes "g xi = Inr xn" "g xn = Inl e"
  shows "fixed_point_body g tol k (out, xi) =
           (if flt (fabs (fsub xn xi)) tol
            then Return (print_row out (k, xn, NaN, fabs (fsub xn xi), GUsed), (xn, NaN, k))
            else Continue (print_row out (k, xn, NaN, fabs (fsub xn xi), GUsed), xn))"
    and "fixed_point_list_body g tol k (rows, xi) = Raise e"
  using assms
  by (simp_all add: fixed_point_body_def fixed_point_list_body_def attempt_cli_def attempt_def
        Let_def)

text \<open>
  C1 holds for the command-line bisection (\<open>bisection_rejects\<close>) but not for the web
  variant, which has no test for \<open>NaN\<close>. Failing input: \<open>f(x) = sqrt(x) - 2\<close> on
  \<open>[-1, 9]\<close>, where \<open>f(-1)\<close> is \<open>NaN\<close>. \<open>NaN * f(9) > 0\<close> is false, so
  \<open>bisection_list\<close> enters the loop and returns the midpoint 4 after one iteration
  instead of failing before the loop.
\<close>

theorem bisection_list_nan_endpoint:
  "f_sqrt_minus_2 (Fin (- 1)) = Inr NaN \<and>
   bisection_list f_sqrt_minus_2 (Fin (- 1)) (Fin 9) (Fin (1 / 100000000)) 50 =
     Inr ([(1, Fin 4, Fin 0, Fin 5, Interval (Fin (- 1)) (Fin 9))], Fin 4, Fin 0, 1)"
  by (simp add: bisection_list_sqrt_nan) (simp add: f_sqrt_minus_2_def)

text \<open>
  C2 fails when the left endpoint is a root. Failing input: \<open>f(x) = x\<close> on \<open>[0, 4]\<close>.
  At entry \<open>f(a) * f(b) = 0 \<le> 0\<close>. In the first pass \<open>fa * fc = 0\<close> is not negative, so
  the loop replaces \<open>a\<close> by the midpoint 2, and now \<open>f(a) * f(b) = 8 > 0\<close>: the bracket no
  longer holds a root, and the run ends at 3.5. Both bisection loops do this. (When the
  function values are finite and the product is negative before the update, the update
  keeps it \<open>\<le> 0\<close>: \<open>update_bracket_from_sign_change\<close>.)
\<close>

theorem bisection_loses_bracket:
  "f_linear (Fin 0) = Inr (Fin 0) \<and> f_linear (Fin 4) = Inr (Fin 4) \<and>
   fle (fmul (fa zero_left_bracket) (fb zero_left_bracket)) (Fin 0) \<and>
   bisection_list_body f_linear (Fin (1 / 2)) 1 ([], zero_left_bracket) =
     Continue ([(1, Fin 2, Fin 2, Fin 2, Interval (Fin 0) (Fin 4))], lost_bracket) \<and>
   bisection_body f_linear (Fin (1 / 2)) 1 ([Header, Dashes], zero_left_bracket\<lparr>c := Some (Fin 0)\<rparr>) =
     Continue ([Header, Dashes, Printed (1, Fin 2, Fin 2, Fin 2, Interval (Fin 0) (Fin 4))],
               lost_bracket) \<and>
   \<not> fle (fmul (fa lost_bracket) (fb lost_bracket)) (Fin 0) \<and>
   bisection_list f_linear (Fin 0) (Fin 4) (Fin (1 / 2)) 3 =
     Inr ([(1, Fin 2, Fin 2, Fin 2, Interval (Fin 0) (Fin 4)),
           (2, Fin 3, Fin 3, Fin 1, Interval (Fin 2) (Fin 4)),
           (3, Fin (7 / 2), Fin (7 / 2), Fin (1 / 2), Interval (Fin 3) (Fin 4))],
          Fin (7 / 2), Fin (7 / 2), 3)"
  by (simp add: bisection_list_def bisection_list_body_def bisection_body_def f_linear_def
        zero_left_bracket_def lost_bracket_def model_defs upto_1_numeral)

text \<open>
  C3 fails for the command-line fixed point only (for the other loops see the lemmas
  on exhausting the loop). Failing input: \<open>g(x) = 1/(x - 2)\<close>,
  \<open>x0 = 2.5\<close>, tolerance \<open>1e-8\<close>, \<open>maxit = 1\<close>. The one pass computes \<open>x_next = 2\<close> with
  error 0.5, which is not below the tolerance; the guarded evaluation of \<open>g(2)\<close> for the
  row raises and is shown as \<open>NaN\<close>. The loop is exhausted, and the \<^verbatim>\<open>return xi, g(xi), maxit\<close>
  after it evaluates \<open>g(2)\<close> again, unguarded: the run raises instead of returning.
\<close>

theorem fixed_point_exhausted_raises:
  "\<not> flt (Fin (1 / 2)) (Fin (1 / 100000000)) \<and>
   fixed_point g_recip (Fin (5 / 2)) (Fin (1 / 100000000)) 1 =
     ([Header, Dashes, Printed (1, Fin 2, NaN, Fin (1 / 2), GUsed)],
      Inl (Exn ZeroDivisionError ''float division by zero''))"
  by (simp add: fixed_point_def fixed_point_body_def g_recip_def model_defs)

text \<open>
  C6 holds inside the command-line loop (\<open>fixed_point_body_guarded\<close>) but not in the web
  variant, which evaluates \<open>g(x_next)\<close> for the row without a guard. Failing input:
  \<open>g(x) = 1/(x - 2)\<close>, \<open>x0 = 2.5\<close>. The step \<open>g(2.5) = 2\<close> succeeds; the evaluation of
  \<open>g(2)\<close> for the row raises, and \<open>fixed_point_list\<close> ends with that exception.
\<close>

theorem fixed_point_list_diagnostic_raises:
  "g_recip (Fin (5 / 2)) = Inr (Fin 2) \<and>
   g_recip (Fin 2) = Inl (Exn ZeroDivisionError ''float division by zero'') \<and>
   fixed_point_list_body g_recip (Fin 1) 1 ([], Fin (5 / 2)) =
     Raise (Exn ZeroDivisionError ''float division by zero'') \<and>
   fixed_point_list g_recip (Fin (5 / 2)) (Fin 1) 50 =
     Inl (Exn ZeroDivisionError ''float division by zero'')"
  by (simp add: fixed_point_list_recip)
     (simp add: fixed_point_list_body_def g_recip_def fdiv_def attempt_def)

text \<open>
  C8 fails for two of the six methods (the other four agree on every input, see
  \<open>regula_falsi_agree\<close> and its siblings). On \<open>f(x) = sqrt(x) - 2\<close> over \<open>[-1, 9]\<close> the
  command-line bisection raises and the web bisection returns; on \<open>g(x) = 1/(x - 2)\<close>
  from \<open>x0 = 2.5\<close> with tolerance 1 the command-line fixed point returns \<open>(2, NaN, 1)\<close>
  and the web fixed point raises.
\<close>

theorem variants_differ:
  "\<not> same_outcome (bisection f_sqrt_minus_2 (Fin (- 1)) (Fin 9) (Fin (1 / 100000000)) 50)
       (bisection_list f_sqrt_minus_2 (Fin (- 1)) (Fin 9) (Fin (1 / 100000000)) 50) \<and>
   \<not> same_outcome (fixed_point g_recip (Fin (5 / 2)) (Fin 1) 50)
       (fixed_point_list g_recip (Fin (5 / 2)) (Fin 1) 50)"
  by (simp add: bisection_sqrt_nan bisection_list_sqrt_nan fixed_point_recip
        fixed_point_list_recip same_outcome_def)

lemma spec_perturb_eq: "perturb_of x0v delta = spec_perturb x0v delta"
  by (simp add: perturb_of_def spec_perturb_def)

lemma ms_chain_snoc:
  "ms_chain f p x0v (rows @ [r]) =
     (ms_chain f p x0v rows \<and> spec_ms_next f p (last_estimate x0v rows) = Inr (row_estimate r))"
  by (induction rows arbitrary: x0v) (auto simp: last_estimate_def)

lemma ms_inv_snoc:
  assumes "ms_inv f p x0v rows xi" "spec_ms_next f p xi = Inr xn"
  shows "ms_inv f p x0v (rows @ [(k, xn, v, e, ex)]) xn"
    and "ms_chain f p x0v (rows @ [(k, xn, v, e, ex)])"
  using assms by (simp_all add: ms_inv_def ms_chain_snoc row_estimate_def last_estimate_def)

lemma modified_secant_list_body_chain:
  assumes "ms_inv f (perturb_of x0v delta) x0v (fst s) (snd s)"
  shows "case modified_secant_list_body f x0v delta tol k s of
           Continue s' \<Rightarrow> ms_inv f (perturb_of x0v delta) x0v (fst s') (snd s')
         | Return r \<Rightarrow> ms_chain f (perturb_of x0v delta) x0v (fst r)
         | Raise e \<Rightarrow> True"
proof (cases s)
  case (Pair rows xi)
  show ?thesis
  proof (cases "spec_ms_next f (perturb_of x0v delta) xi")
    case (Inl e)
    then show ?thesis using Pair
      by (auto simp: modified_secant_list_body_def spec_ms_next_def bnd_def attempt_def Let_def
            feq_zero fdiv_def split: sum.splits if_splits)
  next
    case (Inr xn)
    note sn = ms_inv_snoc[OF assms[unfolded Pair fst_conv snd_conv] Inr]
    from Inr have "\<exists>fp fx. f (fadd xi (perturb_of x0v delta)) = Inr fp \<and> f xi = Inr fx \<and>
        fsub fp fx \<noteq> Fin 0 \<and> xn = fsub xi (fquot (fmul fx (perturb_of x0v delta)) (fsub fp fx))"
      by (auto simp: spec_ms_next_def bnd_def split: sum.splits if_splits)
    then obtain fp fx where ev: "f (fadd xi (perturb_of x0v delta)) = Inr fp" "f xi = Inr fx"
        "fsub fp fx \<noteq> Fin 0"
        "xn = fsub xi (fquot (fmul fx (perturb_of x0v delta)) (fsub fp fx))"
      by blast
    show ?thesis using Pair ev sn
      by (simp add: modified_secant_list_body_def attempt_def Let_def feq_zero fdiv_def
            split: sum.splits)
  qed
qed


lemma modified_secant_body_chain:
  assumes "ms_inv f (perturb_of x0v delta) x0v (printed_rows (fst s)) (snd s)"
  shows "case modified_secant_body f x0v delta tol k s of
           Continue s' \<Rightarrow> ms_inv f (perturb_of x0v delta) x0v (printed_rows (fst s')) (snd s')
         | Return r \<Rightarrow> ms_chain f (perturb_of x0v delta) x0v (printed_rows (fst r))
         | Raise e \<Rightarrow> ms_chain f (perturb_of x0v delta) x0v (printed_rows (fst e))"
proof (cases s)
  case (Pair out xi)
  have ch: "ms_chain f (perturb_of x0v delta) x0v (printed_rows out)"
    using assms Pair by (simp add: ms_inv_def)
  show ?thesis
  proof (cases "spec_ms_next f (perturb_of x0v delta) xi")
    case (Inl e)
    then show ?thesis using Pair ch
      by (auto simp: modified_secant_body_def spec_ms_next_def bnd_def attempt_cli_def Let_def
            feq_zero fdiv_def split: sum.splits if_splits)
  next
    case (Inr xn)
    note sn = ms_inv_snoc[OF assms[unfolded Pair fst_conv snd_conv] Inr]
    from Inr have "\<exists>fp fx. f (fadd xi (perturb_of x0v delta)) = Inr fp \<and> f xi = Inr fx \<and>
        fsub fp fx \<noteq> Fin 0 \<and> xn = fsub xi (fquot (fmul fx (perturb_of x0v delta)) (fsub fp fx))"
      by (auto simp: spec_ms_next_def bnd_def split: sum.splits if_splits)
    then obtain fp fx where ev: "f (fadd xi (perturb_of x0v delta)) = Inr fp" "f xi = Inr fx"
        "fsub fp fx \<noteq> Fin 0"
        "xn = fsub xi (fquot (fmul fx (perturb_of x0v delta)) (fsub fp fx))"
      by blast
    show ?thesis using Pair ev sn ch
      by (simp add: modified_secant_body_def attempt_cli_def Let_def feq_zero fdiv_def
            printed_rows_print_row split: sum.splits)
  qed
qed

lemma for_loop_inv:
  assumes "I s"
    and "\<And>k s. I s \<Longrightarrow>
           (case body k s of Continue s' \<Rightarrow> I s' | Return r \<Rightarrow> R r | Raise e \<Rightarrow> E e)"
  shows "case for_loop body ks s of Continue s' \<Rightarrow> I s' | Return r \<Rightarrow> R r | Raise e \<Rightarrow> E e"
  using assms(1)
proof (induction ks arbitrary: s)
  case Nil
  then show ?case by simp
next
  case (Cons k ks)
  from assms(2)[OF Cons.prems, of k] Cons.IH show ?case
    by (cases "body k s") simp_all
qed

lemma ms_inv_start: "ms_inv f p x0v [] x0v"
  by (simp add: ms_inv_def last_estimate_def)

lemma modified_secant_list_chain:
  assumes "modified_secant_list f x0v delta tol maxit = Inr (rows, xr, fr, its)"
  shows "ms_chain f (perturb_of x0v delta) x0v rows"
proof -
  have "case for_loop (modified_secant_list_body f x0v delta tol) (range1 maxit) ([], x0v) of
          Continue s' \<Rightarrow> ms_inv f (perturb_of x0v delta) x0v (fst s') (snd s')
        | Return r \<Rightarrow> ms_chain f (perturb_of x0v delta) x0v (fst r)
        | Raise e \<Rightarrow> True"
    by (rule for_loop_inv[where I = "\<lambda>s. ms_inv f (perturb_of x0v delta) x0v (fst s) (snd s)"])
       (simp_all add: ms_inv_start modified_secant_list_body_chain)
  then show ?thesis using assms
    by (auto simp: modified_secant_list_def bnd_def ms_inv_def split: outcome.splits sum.splits)
qed

lemma modified_secant_chain:
  assumes "modified_secant f x0v delta tol maxit = (out, res)"
  shows "ms_chain f (perturb_of x0v delta) x0v (printed_rows out)"
proof -
  have "case for_loop (modified_secant_body f x0v delta tol) (range1 maxit)
               (print_iter_header [], x0v) of
          Continue s' \<Rightarrow> ms_inv f (perturb_of x0v delta) x0v (printed_rows (fst s')) (snd s')
        | Return r \<Rightarrow> ms_chain f (perturb_of x0v delta) x0v (printed_rows (fst r))
        | Raise e \<Rightarrow> ms_chain f (perturb_of x0v delta) x0v (printed_rows (fst e))"
    by (rule for_loop_inv[where
          I = "\<lambda>s. ms_inv f (perturb_of x0v delta) x0v (printed_rows (fst s)) (snd s)"])
       (simp_all add: ms_inv_start printed_rows_header modified_secant_body_chain)
  then show ?thesis using assms
    by (auto simp: modified_secant_def ms_inv_def split: outcome.splits)
qed

lemma modified_secant_list_sqrt2:
  "modified_secant_list f_sq_minus_2 (Fin 1) (Fin 1) (Fin (1 / 2)) 5 =
     Inr (ms_rows, Fin (4 / 3), Fin (- (2 / 9)), 1)"
  by (simp add: modified_secant_list_def modified_secant_list_body_def f_sq_minus_2_def
        ms_rows_def model_defs upto_1_numeral)

lemma modified_secant_sqrt2:
  "modified_secant f_sq_minus_2 (Fin 1) (Fin 1) (Fin (1 / 2)) 5 =
     ([Header, Dashes] @ map Printed ms_rows, Inr (Fin (4 / 3), Fin (- (2 / 9)), 1))"
  by (simp add: modified_secant_def modified_secant_body_def f_sq_minus_2_def
        ms_rows_def model_defs upto_1_numeral)

text \<open>
  C5. In every modified secant run, command-line or web, the estimate of each row is
  \<open>xi - f(xi) * p / (f(xi + p) - f(xi))\<close> computed from the estimate before it (the seed
  \<open>x0\<close> for the first row), with the one perturbation \<open>p\<close> fixed by the seed: \<open>x0 * delta\<close>
  when \<open>x0 \<noteq> 0\<close>, \<open>delta\<close> when \<open>x0 == 0\<close>; it is never recomputed from the current
  iterate. A pass whose denominator \<open>f(xi + p) - f(xi)\<close> is exactly zero raises
  \<open>ZeroDivisionError\<close> with the modified secant method's message.
\<close>

theorem modified_secant_steps:
  "(modified_secant_list f x0v delta tol maxit = Inr (rows, xr, fr, its) \<longrightarrow>
      ms_chain f (spec_perturb x0v delta) x0v rows) \<and>
   (modified_secant f x0v delta tol maxit = (out, res) \<longrightarrow>
      ms_chain f (spec_perturb x0v delta) x0v (printed_rows out)) \<and>
   (f (fadd xi (spec_perturb x0v delta)) = Inr u \<and> f xi = Inr v \<and> fsub u v = Fin 0 \<longrightarrow>
      modified_secant_body f x0v delta tol k (out', xi) =
        Raise (out', Exn ZeroDivisionError ''Denominator zero in Modified Secant.'') \<and>
      modified_secant_list_body f x0v delta tol k (rows', xi) =
        Raise (Exn ZeroDivisionError ''Denominator zero in Modified Secant.''))"
proof (intro conjI impI)
  assume "modified_secant_list f x0v delta tol maxit = Inr (rows, xr, fr, its)"
  then show "ms_chain f (spec_perturb x0v delta) x0v rows"
    using modified_secant_list_chain by (simp add: spec_perturb_eq[symmetric])
next
  assume "modified_secant f x0v delta tol maxit = (out, res)"
  then show "ms_chain f (spec_perturb x0v delta) x0v (printed_rows out)"
    using modified_secant_chain by (simp add: spec_perturb_eq[symmetric])
next
  assume a: "f (fadd xi (spec_perturb x0v delta)) = Inr u \<and> f xi = Inr v \<and> fsub u v = Fin 0"
  then show "modified_secant_body f x0v delta tol k (out', xi) =
        Raise (out', Exn ZeroDivisionError ''Denominator zero in Modified Secant.'')"
    using modified_secant_body_zero_denominator(1)[of f xi x0v delta u v]
    by (simp add: spec_perturb_eq)
  from a show "modified_secant_list_body f x0v delta tol k (rows', xi) =
        Raise (Exn ZeroDivisionError ''Denominator zero in Modified Secant.'')"
    using modified_secant_body_zero_denominator(2)[of f xi x0v delta u v]
    by (simp add: spec_perturb_eq)
qed

theorem modified_secant_steps_witness:
  "modified_secant_list f_sq_minus_2 (Fin 1) (Fin 1) (Fin (1 / 2)) 5 =
     Inr (ms_rows, Fin (4 / 3), Fin (- (2 / 9)), 1) \<and>
   modified_secant f_sq_minus_2 (Fin 1) (Fin 1) (Fin (1 / 2)) 5 =
     ([Header, Dashes] @ map Printed ms_rows, Inr (Fin (4 / 3), Fin (- (2 / 9)), 1)) \<and>
   spec_perturb (Fin 1) (Fin 1) = Fin 1 \<and>
   ms_chain f_sq_minus_2 (Fin 1) (Fin 1) ms_rows \<and>
   spec_ms_next f_sq_minus_2 (Fin 1) (Fin 1) = Inr (Fin (4 / 3)) \<and>
   f_sq (fadd (Fin (- 1)) (spec_perturb (Fin (- 1)) (Fin (- 2)))) = Inr (Fin 1) \<and>
   f_sq (Fin (- 1)) = Inr (Fin 1) \<and> fsub (Fin 1) (Fin 1) = Fin 0 \<and>
   modified_secant_list_body f_sq (Fin (- 1)) (Fin (- 2)) (Fin (1 / 2)) 1 ([], Fin (- 1)) =
     Raise (Exn ZeroDivisionError ''Denominator zero in Modified Secant.'')"
proof -
  have w: "modified_secant_list f_sq_minus_2 (Fin 1) (Fin 1) (Fin (1 / 2)) 5 =
     Inr (ms_rows, Fin (4 / 3), Fin (- (2 / 9)), 1)"
    by (rule modified_secant_list_sqrt2)
  have c: "modified_secant f_sq_minus_2 (Fin 1) (Fin 1) (Fin (1 / 2)) 5 =
     ([Header, Dashes] @ map Printed ms_rows, Inr (Fin (4 / 3), Fin (- (2 / 9)), 1))"
    by (rule modified_secant_sqrt2)
  have p: "spec_perturb (Fin 1) (Fin 1) = Fin 1" by (simp add: spec_perturb_def)
  have z: "f_sq (fadd (Fin (- 1)) (spec_perturb (Fin (- 1)) (Fin (- 2)))) = Inr (Fin 1) \<and>
      f_sq (Fin (- 1)) = Inr (Fin 1) \<and> fsub (Fin 1) (Fin 1) = Fin 0"
    by (simp add: f_sq_def spec_perturb_def)
  note t1 = modified_secant_steps[of f_sq_minus_2 "Fin 1" "Fin 1" "Fin (1 / 2)" 5 ms_rows
      "Fin (4 / 3)" "Fin (- (2 / 9))" 1 "[Header, Dashes] @ map Printed ms_rows"
      "Inr (Fin (4 / 3), Fin (- (2 / 9)), 1)"]
  note t2 = modified_secant_steps[of f_sq "Fin (- 1)" "Fin (- 2)" "Fin (1 / 2)" 5 ms_rows
      "Fin (4 / 3)" "Fin (- (2 / 9))" 1 "[]" "Inr (Fin (4 / 3), Fin (- (2 / 9)), 1)"
      "Fin (- 1)" "Fin 1" "Fin 1" 1 "[]" "[]"]
  have ch: "ms_chain f_sq_minus_2 (Fin 1) (Fin 1) ms_rows" using t1 w p by simp
  then have st: "spec_ms_next f_sq_minus_2 (Fin 1) (Fin 1) = Inr (Fin (4 / 3))"
    by (simp add: ms_rows_def row_estimate_def)
  have r: "modified_secant_list_body f_sq (Fin (- 1)) (Fin (- 2)) (Fin (1 / 2)) 1 ([], Fin (- 1)) =
     Raise (Exn ZeroDivisionError ''Denominator zero in Modified Secant.'')"
    using t2 z by simp
  show ?thesis using w c p ch st z r by simp
qed

subsection \<open>Secant: failing on a zero difference\<close>

lemma for_loop_append:
  "for_loop body (ks @ ls) s =
     (case for_loop body ks s of
        Continue s' \<Rightarrow> for_loop body ls s' | Return r \<Rightarrow> Return r | Raise e \<Rightarrow> Raise e)"
  by (induction ks arbitrary: s) (simp_all split: outcome.splits)

lemma range1_split:
  assumes "0 \<le> j" "j < maxit"
  shows "range1 maxit = [1..j] @ (j + 1) # [j + 2..maxit]"
proof -
  have "[1..maxit] = [1..(j + 1) - 1] @ [j + 1..maxit]"
    using assms by (intro upto_split1) simp_all
  moreover have "[j + 1..maxit] = (j + 1) # [j + 1 + 1..maxit]"
    using assms by (intro upto_rec1) simp
  ultimately show ?thesis by (simp add: range1_def add.commute)
qed

lemma secant_body_window:
  assumes "window_ok f (snd s)"
  shows "case secant_body f tol k s of
           Continue s' \<Rightarrow> window_ok f (snd s') | Return r \<Rightarrow> True | Raise e \<Rightarrow> True"
  using assms
  by (cases s)
     (auto simp: secant_body_def window_ok_def slide_def attempt_cli_def Let_def
        split: sum.splits)

lemma secant_list_body_window:
  assumes "window_ok f (snd s)"
  shows "case secant_list_body f tol k s of
           Continue s' \<Rightarrow> window_ok f (snd s') | Return r \<Rightarrow> True | Raise e \<Rightarrow> True"
  using assms
  by (cases s)
     (auto simp: secant_list_body_def window_ok_def slide_def attempt_def Let_def
        split: sum.splits)

lemma secant_window_reached:
  assumes "f x0v = Inr v0" "f x1v = Inr v1"
  shows "for_loop (secant_body f tol) ks (out0, secant_seeds x0v x1v v0 v1) = Continue (out, s)
           \<Longrightarrow> window_ok f s"
    and "for_loop (secant_list_body f tol) ks (rows0, secant_seeds x0v x1v v0 v1) = Continue (rows, t)
           \<Longrightarrow> window_ok f t"
proof -
  have st: "window_ok f (secant_seeds x0v x1v v0 v1)"
    using assms by (simp add: window_ok_def secant_seeds_def)
  have "case for_loop (secant_body f tol) ks (out0, secant_seeds x0v x1v v0 v1) of
          Continue s' \<Rightarrow> window_ok f (snd s') | Return r \<Rightarrow> True | Raise e \<Rightarrow> True"
    by (rule for_loop_inv[where I = "\<lambda>s. window_ok f (snd s)"])
       (simp_all add: st secant_body_window)
  then show "for_loop (secant_body f tol) ks (out0, secant_seeds x0v x1v v0 v1) = Continue (out, s)
           \<Longrightarrow> window_ok f s"
    by simp
  have "case for_loop (secant_list_body f tol) ks (rows0, secant_seeds x0v x1v v0 v1) of
          Continue s' \<Rightarrow> window_ok f (snd s') | Return r \<Rightarrow> True | Raise e \<Rightarrow> True"
    by (rule for_loop_inv[where I = "\<lambda>s. window_ok f (snd s)"])
       (simp_all add: st secant_list_body_window)
  then show "for_loop (secant_list_body f tol) ks (rows0, secant_seeds x0v x1v v0 v1) = Continue (rows, t)
           \<Longrightarrow> window_ok f t"
    by simp
qed

lemma feq_fsub_zero: "feq (fsub u1 u0) (Fin 0) = (\<exists>p. u1 = Fin p \<and> u0 = Fin p)"
  by (simp add: feq_zero fsub_zero_iff)

lemma secant_body_nonzero_difference:
  assumes "\<not> feq (fsub (f1 s) (f0 s)) (Fin 0)"
  shows "(secant_body f tol k (out, s) = Raise (out', e)) =
           (out' = out \<and> f (secant_point (x0 s) (x1 s) (f0 s) (f1 s)) = Inl e)"
    and "(secant_list_body f tol k (rows, s) = Raise e) =
           (f (secant_point (x0 s) (x1 s) (f0 s) (f1 s)) = Inl e)"
  using assms
  by (auto simp: secant_body_def secant_list_body_def secant_point_def feq_zero fdiv_def
        attempt_def attempt_cli_def Let_def split: sum.splits)

lemma secant_fails_after:
  assumes "f x0v = Inr v0" "f x1v = Inr v1" "0 \<le> j" "j < maxit"
    and "feq (fsub (f1 s) (f0 s)) (Fin 0)"
  shows "for_loop (secant_body f tol) [1..j] ([Header, Dashes], secant_seeds x0v x1v v0 v1) =
           Continue (out, s) \<Longrightarrow> secant f x0v x1v tol maxit = (out, Inl secant_error)"
    and "for_loop (secant_list_body f tol) [1..j] ([], secant_seeds x0v x1v v0 v1) =
           Continue (rows, s) \<Longrightarrow> secant_list f x0v x1v tol maxit = Inl secant_error"
  using assms
  by (simp_all add: secant_def secant_list_def range1_split for_loop_append
        secant_body_zero_difference secant_seeds_def secant_error_def print_iter_header_def
        bnd_def)


lemma secant_rows_after:
  shows "for_loop (secant_body f tol) [1..j] ([Header, Dashes], secant_seeds x0v x1v v0 v1) =
           Continue (out, s) \<Longrightarrow> map row_index (printed_rows out) = [1..j]"
    and "for_loop (secant_list_body f tol) [1..j] ([], secant_seeds x0v x1v v0 v1) =
           Continue (rows, t) \<Longrightarrow> map row_index rows = [1..j]"
proof -
  let ?c = "([Header, Dashes], secant_seeds x0v x1v v0 v1)"
  let ?w = "([]::row list, secant_seeds x0v x1v v0 v1)"
  have "case for_loop (secant_body f tol) [1..j] ?c of
          Continue s' \<Rightarrow>
            (if 1 \<le> j then loop_inv j (printed_rows (fst s')) (x2 (snd s')) (fx2 (snd s'))
             else s' = ?c)
        | Return r \<Rightarrow> (\<exists>k. 1 \<le> k \<and> k \<le> j \<and> returned_at_cli k r)
        | Raise e \<Rightarrow> (\<exists>k. 1 \<le> k \<and> k \<le> j \<and> raised_any k e)"
    by (rule for_loop_upto[where
          I = "\<lambda>k s'. loop_inv k (printed_rows (fst s')) (x2 (snd s')) (fx2 (snd s'))"])
       (simp_all add: loop_inv_start secant_body_step)
  then show "for_loop (secant_body f tol) [1..j] ?c = Continue (out, s)
      \<Longrightarrow> map row_index (printed_rows out) = [1..j]"
    by (cases "1 \<le> j") (auto simp: loop_inv_def)
  have "case for_loop (secant_list_body f tol) [1..j] ?w of
          Continue s' \<Rightarrow>
            (if 1 \<le> j then loop_inv j (fst s') (x2 (snd s')) (fx2 (snd s')) else s' = ?w)
        | Return r \<Rightarrow> (\<exists>k. 1 \<le> k \<and> k \<le> j \<and> returned_at k r)
        | Raise e \<Rightarrow> (\<exists>k. 1 \<le> k \<and> k \<le> j \<and> raised_any k e)"
    by (rule for_loop_upto[where I = "\<lambda>k s'. loop_inv k (fst s') (x2 (snd s')) (fx2 (snd s'))"])
       (simp_all add: loop_inv_start secant_list_body_step)
  then show "for_loop (secant_list_body f tol) [1..j] ?w = Continue (rows, t)
      \<Longrightarrow> map row_index rows = [1..j]"
    by (cases "1 \<le> j") (auto simp: loop_inv_def)
qed

lemma secant_exp_overflow:
  "secant f_exp (Fin 1000) (Fin 2000) (Fin (1 / 100000000)) 2 =
     ([Header, Dashes, Printed (1, NaN, NaN, NaN, Points (Fin 1000) (Fin 2000)),
       Printed (2, NaN, NaN, NaN, Points (Fin 2000) NaN)],
      Inr (NaN, NaN, 2))"
  by (simp add: secant_def secant_body_def f_exp_def signed_inf_def model_defs upto_1_numeral)

lemma secant_list_exp_overflow:
  "secant_list f_exp (Fin 1000) (Fin 2000) (Fin (1 / 100000000)) 2 =
     Inr ([(1, NaN, NaN, NaN, Points (Fin 1000) (Fin 2000)),
           (2, NaN, NaN, NaN, Points (Fin 2000) NaN)],
          NaN, NaN, 2)"
  by (simp add: secant_list_def secant_list_body_def f_exp_def signed_inf_def model_defs upto_1_numeral)

text \<open>
  C4, as stated, fails. The claim says that the secant method fails with the
  division-by-zero error whenever the function values at the two window points are equal.
  The code tests \<open>(f1 - f0) == 0\<close>, and for two equal infinite values the difference is
  \<open>NaN\<close>, which is not zero. On \<open>exp(x)\<close> from the seeds 1000 and 2000 both values are
  \<open>inf\<close>; the run does not fail, it computes \<open>NaN\<close> in every pass and returns it.
\<close>

theorem secant_equal_infinities_counterexample:
  "f_exp (Fin 1000) = Inr PInf \<and> f_exp (Fin 2000) = Inr PInf \<and> feq PInf PInf \<and>
   secant f_exp (Fin 1000) (Fin 2000) (Fin (1 / 100000000)) 2 =
     ([Header, Dashes, Printed (1, NaN, NaN, NaN, Points (Fin 1000) (Fin 2000)),
       Printed (2, NaN, NaN, NaN, Points (Fin 2000) NaN)],
      Inr (NaN, NaN, 2)) \<and>
   secant_list f_exp (Fin 1000) (Fin 2000) (Fin (1 / 100000000)) 2 =
     Inr ([(1, NaN, NaN, NaN, Points (Fin 1000) (Fin 2000)),
           (2, NaN, NaN, NaN, Points (Fin 2000) NaN)],
          NaN, NaN, 2)"
  by (simp add: secant_exp_overflow secant_list_exp_overflow) (simp add: f_exp_def)

lemma secant_pass:
  assumes ev: "f x0v = Inr v0" "f x1v = Inr v1"
    and lp: "for_loop (secant_body f tol) [1..j] ([Header, Dashes], secant_seeds x0v x1v v0 v1) =
      Continue (out, s)"
  shows "f (x0 s) = Inr (f0 s) \<and> f (x1 s) = Inr (f1 s) \<and>
       (feq (fsub (f1 s) (f0 s)) (Fin 0) = (\<exists>p. f1 s = Fin p \<and> f0 s = Fin p)) \<and>
       (feq (fsub (f1 s) (f0 s)) (Fin 0) \<longrightarrow>
          secant_body f tol (j + 1) (out, s) = Raise (out, secant_error) \<and>
          (0 \<le> j \<and> j < maxit \<longrightarrow> secant f x0v x1v tol maxit = (out, Inl secant_error))) \<and>
       (\<not> feq (fsub (f1 s) (f0 s)) (Fin 0) \<longrightarrow>
          (\<forall>out' e. (secant_body f tol (j + 1) (out, s) = Raise (out', e)) =
                     (out' = out \<and> f (secant_point (x0 s) (x1 s) (f0 s) (f1 s)) = Inl e)))"
proof (intro conjI impI allI)
  show "f (x0 s) = Inr (f0 s)" "f (x1 s) = Inr (f1 s)"
    using secant_window_reached(1)[OF ev lp] by (simp_all add: window_ok_def)
  show "feq (fsub (f1 s) (f0 s)) (Fin 0) = (\<exists>p. f1 s = Fin p \<and> f0 s = Fin p)"
    by (rule feq_fsub_zero)
next
  assume d: "feq (fsub (f1 s) (f0 s)) (Fin 0)"
  show "secant_body f tol (j + 1) (out, s) = Raise (out, secant_error)"
    using secant_body_zero_difference(1)[OF d] by (simp add: secant_error_def)
  assume "0 \<le> j \<and> j < maxit"
  then have "0 \<le> j" "j < maxit" by simp_all
  then show "secant f x0v x1v tol maxit = (out, Inl secant_error)"
    using secant_fails_after(1)[OF ev _ _ d lp] by simp
next
  fix out' e
  assume "\<not> feq (fsub (f1 s) (f0 s)) (Fin 0)"
  then show "(secant_body f tol (j + 1) (out, s) = Raise (out', e)) =
      (out' = out \<and> f (secant_point (x0 s) (x1 s) (f0 s) (f1 s)) = Inl e)"
    by (rule secant_body_nonzero_difference(1))
qed

lemma secant_list_pass:
  assumes ev: "f x0v = Inr v0" "f x1v = Inr v1"
    and lp: "for_loop (secant_list_body f tol) [1..j] ([], secant_seeds x0v x1v v0 v1) =
      Continue (rows, t)"
  shows "f (x0 t) = Inr (f0 t) \<and> f (x1 t) = Inr (f1 t) \<and>
       (feq (fsub (f1 t) (f0 t)) (Fin 0) = (\<exists>p. f1 t = Fin p \<and> f0 t = Fin p)) \<and>
       (feq (fsub (f1 t) (f0 t)) (Fin 0) \<longrightarrow>
          secant_list_body f tol (j + 1) (rows, t) = Raise secant_error \<and>
          (0 \<le> j \<and> j < maxit \<longrightarrow> secant_list f x0v x1v tol maxit = Inl secant_error)) \<and>
       (\<not> feq (fsub (f1 t) (f0 t)) (Fin 0) \<longrightarrow>
          (\<forall>e. (secant_list_body f tol (j + 1) (rows, t) = Raise e) =
                (f (secant_point (x0 t) (x1 t) (f0 t) (f1 t)) = Inl e)))"
proof (intro conjI impI allI)
  show "f (x0 t) = Inr (f0 t)" "f (x1 t) = Inr (f1 t)"
    using secant_window_reached(2)[OF ev lp] by (simp_all add: window_ok_def)
  show "feq (fsub (f1 t) (f0 t)) (Fin 0) = (\<exists>p. f1 t = Fin p \<and> f0 t = Fin p)"
    by (rule feq_fsub_zero)
next
  assume d: "feq (fsub (f1 t) (f0 t)) (Fin 0)"
  show "secant_list_body f tol (j + 1) (rows, t) = Raise secant_error"
    using secant_body_zero_difference(2)[OF d] by (simp add: secant_error_def)
  assume "0 \<le> j \<and> j < maxit"
  then have "0 \<le> j" "j < maxit" by simp_all
  then show "secant_list f x0v x1v tol maxit = Inl secant_error"
    using secant_fails_after(2)[OF ev _ _ d lp] by simp
next
  fix e
  assume "\<not> feq (fsub (f1 t) (f0 t)) (Fin 0)"
  then show "(secant_list_body f tol (j + 1) (rows, t) = Raise e) =
      (f (secant_point (x0 t) (x1 t) (f0 t) (f1 t)) = Inl e)"
    by (rule secant_body_nonzero_difference(2))
qed

text \<open>
  C4, amended. At the start of every pass of a secant run (after \<open>j\<close> passes that went on,
  which have produced exactly the rows \<open>1, ..., j\<close>) the window holds two points whose
  stored values are the function values \<open>f(x0)\<close>, \<open>f(x1)\<close>. The pass raises the secant
  method's \<open>ZeroDivisionError\<close> exactly when the computed difference \<open>f(x1) - f(x0)\<close> is
  zero, that is when the two values are finite and equal; it raises before a point is
  computed or a row produced, and the run ends with that error and the rows of the passes
  before. When the difference is not zero, the pass raises exactly when the evaluator
  raises at the new point \<open>x2\<close>, and then with the evaluator's exception. In particular
  seeds whose values have difference zero fail in the first pass: the command-line run has
  printed the header and no row, the web run raises.
\<close>

theorem secant_zero_difference:
  "(f x0v = Inr v0 \<and> f x1v = Inr v1 \<and>
    for_loop (secant_body f tol) [1..j] ([Header, Dashes], secant_seeds x0v x1v v0 v1) =
      Continue (out, s) \<longrightarrow>
    map row_index (printed_rows out) = [1..j] \<and>
    (\<exists>u0 u1. f (x0 s) = Inr u0 \<and> f (x1 s) = Inr u1 \<and>
       (feq (fsub u1 u0) (Fin 0) = (\<exists>p. u1 = Fin p \<and> u0 = Fin p)) \<and>
       (feq (fsub u1 u0) (Fin 0) \<longrightarrow>
          secant_body f tol (j + 1) (out, s) = Raise (out, secant_error) \<and>
          (0 \<le> j \<and> j < maxit \<longrightarrow> secant f x0v x1v tol maxit = (out, Inl secant_error))) \<and>
       (\<not> feq (fsub u1 u0) (Fin 0) \<longrightarrow>
          (\<forall>out' e. (secant_body f tol (j + 1) (out, s) = Raise (out', e)) =
                     (out' = out \<and> f (secant_point (x0 s) (x1 s) u0 u1) = Inl e))))) \<and>
   (f x0v = Inr v0 \<and> f x1v = Inr v1 \<and>
    for_loop (secant_list_body f tol) [1..j] ([], secant_seeds x0v x1v v0 v1) =
      Continue (rows, t) \<longrightarrow>
    map row_index rows = [1..j] \<and>
    (\<exists>u0 u1. f (x0 t) = Inr u0 \<and> f (x1 t) = Inr u1 \<and>
       (feq (fsub u1 u0) (Fin 0) = (\<exists>p. u1 = Fin p \<and> u0 = Fin p)) \<and>
       (feq (fsub u1 u0) (Fin 0) \<longrightarrow>
          secant_list_body f tol (j + 1) (rows, t) = Raise secant_error \<and>
          (0 \<le> j \<and> j < maxit \<longrightarrow> secant_list f x0v x1v tol maxit = Inl secant_error)) \<and>
       (\<not> feq (fsub u1 u0) (Fin 0) \<longrightarrow>
          (\<forall>e. (secant_list_body f tol (j + 1) (rows, t) = Raise e) =
                (f (secant_point (x0 t) (x1 t) u0 u1) = Inl e))))) \<and>
   (1 \<le> maxit \<and> f x0v = Inr v0 \<and> f x1v = Inr v1 \<and> feq (fsub v1 v0) (Fin 0) \<longrightarrow>
      secant f x0v x1v tol maxit = ([Header, Dashes], Inl secant_error) \<and>
      secant_list f x0v x1v tol maxit = Inl secant_error)"
proof (intro conjI impI)
  assume a: "f x0v = Inr v0 \<and> f x1v = Inr v1 \<and>
    for_loop (secant_body f tol) [1..j] ([Header, Dashes], secant_seeds x0v x1v v0 v1) =
      Continue (out, s)"
  then have ev: "f x0v = Inr v0" "f x1v = Inr v1"
    and lp: "for_loop (secant_body f tol) [1..j] ([Header, Dashes], secant_seeds x0v x1v v0 v1) =
      Continue (out, s)"
    by simp_all
  show "map row_index (printed_rows out) = [1..j]"
    using lp by (rule secant_rows_after(1))
  show "\<exists>u0 u1. f (x0 s) = Inr u0 \<and> f (x1 s) = Inr u1 \<and>
       (feq (fsub u1 u0) (Fin 0) = (\<exists>p. u1 = Fin p \<and> u0 = Fin p)) \<and>
       (feq (fsub u1 u0) (Fin 0) \<longrightarrow>
          secant_body f tol (j + 1) (out, s) = Raise (out, secant_error) \<and>
          (0 \<le> j \<and> j < maxit \<longrightarrow> secant f x0v x1v tol maxit = (out, Inl secant_error))) \<and>
       (\<not> feq (fsub u1 u0) (Fin 0) \<longrightarrow>
          (\<forall>out' e. (secant_body f tol (j + 1) (out, s) = Raise (out', e)) =
                     (out' = out \<and> f (secant_point (x0 s) (x1 s) u0 u1) = Inl e)))"
    by (rule exI[of _ "f0 s"], rule exI[of _ "f1 s"], rule secant_pass[OF ev lp])
next
  assume a: "f x0v = Inr v0 \<and> f x1v = Inr v1 \<and>
    for_loop (secant_list_body f tol) [1..j] ([], secant_seeds x0v x1v v0 v1) =
      Continue (rows, t)"
  then have ev: "f x0v = Inr v0" "f x1v = Inr v1"
    and lp: "for_loop (secant_list_body f tol) [1..j] ([], secant_seeds x0v x1v v0 v1) =
      Continue (rows, t)"
    by simp_all
  show "map row_index rows = [1..j]"
    using lp by (rule secant_rows_after(2))
  show "\<exists>u0 u1. f (x0 t) = Inr u0 \<and> f (x1 t) = Inr u1 \<and>
       (feq (fsub u1 u0) (Fin 0) = (\<exists>p. u1 = Fin p \<and> u0 = Fin p)) \<and>
       (feq (fsub u1 u0) (Fin 0) \<longrightarrow>
          secant_list_body f tol (j + 1) (rows, t) = Raise secant_error \<and>
          (0 \<le> j \<and> j < maxit \<longrightarrow> secant_list f x0v x1v tol maxit = Inl secant_error)) \<and>
       (\<not> feq (fsub u1 u0) (Fin 0) \<longrightarrow>
          (\<forall>e. (secant_list_body f tol (j + 1) (rows, t) = Raise e) =
                (f (secant_point (x0 t) (x1 t) u0 u1) = Inl e)))"
    by (rule exI[of _ "f0 t"], rule exI[of _ "f1 t"], rule secant_list_pass[OF ev lp])
next
  assume a: "1 \<le> maxit \<and> f x0v = Inr v0 \<and> f x1v = Inr v1 \<and> feq (fsub v1 v0) (Fin 0)"
  then show "secant f x0v x1v tol maxit = ([Header, Dashes], Inl secant_error)"
    using secant_zero_difference_seeds(1)[of maxit f x0v v0 x1v v1 tol]
    by (simp add: secant_error_def)
  from a show "secant_list f x0v x1v tol maxit = Inl secant_error"
    using secant_zero_difference_seeds(2)[of maxit f x0v v0 x1v v1 tol]
    by (simp add: secant_error_def)
qed

lemma secant_list_first_pass:
  "for_loop (secant_list_body f_sq_minus_2 (Fin (1 / 100))) [1..1]
     ([], secant_seeds (Fin 1) (Fin 2) (Fin (- 1)) (Fin 2)) =
   Continue ([(1, Fin (4 / 3), Fin (- (2 / 9)), Fin (2 / 3), Points (Fin 1) (Fin 2))],
             window_after_one)"
  by (simp add: secant_list_body_def f_sq_minus_2_def secant_seeds_def window_after_one_def
        model_defs upto_rec1)

theorem secant_zero_difference_witness:
  "f_sq (Fin (- 1)) = Inr (Fin 1) \<and> f_sq (Fin 1) = Inr (Fin 1) \<and>
   for_loop (secant_body f_sq (Fin (1 / 100))) [1..0]
     ([Header, Dashes], secant_seeds (Fin (- 1)) (Fin 1) (Fin 1) (Fin 1)) =
     Continue ([Header, Dashes], secant_seeds (Fin (- 1)) (Fin 1) (Fin 1) (Fin 1)) \<and>
   feq (fsub (Fin 1) (Fin 1)) (Fin 0) \<and> (0::int) \<le> 0 \<and> (0::int) < 5 \<and> (1::int) \<le> 5 \<and>
   secant_body f_sq (Fin (1 / 100)) (0 + 1)
     ([Header, Dashes], secant_seeds (Fin (- 1)) (Fin 1) (Fin 1) (Fin 1)) =
     Raise ([Header, Dashes], secant_error) \<and>
   secant f_sq (Fin (- 1)) (Fin 1) (Fin (1 / 100)) 5 = ([Header, Dashes], Inl secant_error) \<and>
   secant_list f_sq (Fin (- 1)) (Fin 1) (Fin (1 / 100)) 5 = Inl secant_error \<and>
   g_recip (Fin 1) = Inr (Fin (- 1)) \<and> g_recip (Fin 3) = Inr (Fin 1) \<and>
   for_loop (secant_list_body g_recip (Fin (1 / 100))) [1..0]
     ([], secant_seeds (Fin 1) (Fin 3) (Fin (- 1)) (Fin 1)) =
     Continue ([], secant_seeds (Fin 1) (Fin 3) (Fin (- 1)) (Fin 1)) \<and>
   \<not> feq (fsub (Fin 1) (Fin (- 1))) (Fin 0) \<and>
   secant_point (Fin 1) (Fin 3) (Fin (- 1)) (Fin 1) = Fin 2 \<and>
   secant_list_body g_recip (Fin (1 / 100)) (0 + 1)
     ([], secant_seeds (Fin 1) (Fin 3) (Fin (- 1)) (Fin 1)) =
     Raise (Exn ZeroDivisionError ''float division by zero'') \<and>
   f_sq_minus_2 (Fin 1) = Inr (Fin (- 1)) \<and> f_sq_minus_2 (Fin 2) = Inr (Fin 2) \<and>
   for_loop (secant_list_body f_sq_minus_2 (Fin (1 / 100))) [1..1]
     ([], secant_seeds (Fin 1) (Fin 2) (Fin (- 1)) (Fin 2)) =
     Continue ([(1, Fin (4 / 3), Fin (- (2 / 9)), Fin (2 / 3), Points (Fin 1) (Fin 2))],
               window_after_one) \<and>
   map row_index [(1, Fin (4 / 3), Fin (- (2 / 9)), Fin (2 / 3), Points (Fin 1) (Fin 2))] = [1..1] \<and>
   (\<exists>u0 u1. f_sq_minus_2 (x0 window_after_one) = Inr u0 \<and>
            f_sq_minus_2 (x1 window_after_one) = Inr u1 \<and> \<not> feq (fsub u1 u0) (Fin 0))"
proof -
  have sq: "f_sq (Fin (- 1)) = Inr (Fin 1) \<and> f_sq (Fin 1) = Inr (Fin 1)"
    by (simp add: f_sq_def)
  have l0: "for_loop (secant_body f_sq (Fin (1 / 100))) [1..0]
     ([Header, Dashes], secant_seeds (Fin (- 1)) (Fin 1) (Fin 1) (Fin 1)) =
     Continue ([Header, Dashes], secant_seeds (Fin (- 1)) (Fin 1) (Fin 1) (Fin 1))"
    by simp
  have gr: "g_recip (Fin 1) = Inr (Fin (- 1)) \<and> g_recip (Fin 3) = Inr (Fin 1)"
    by (simp add: g_recip_def fdiv_def)
  have g0: "for_loop (secant_list_body g_recip (Fin (1 / 100))) [1..0]
     ([], secant_seeds (Fin 1) (Fin 3) (Fin (- 1)) (Fin 1)) =
     Continue ([], secant_seeds (Fin 1) (Fin 3) (Fin (- 1)) (Fin 1))"
    by simp
  have pt: "secant_point (Fin 1) (Fin 3) (Fin (- 1)) (Fin 1) = Fin 2"
    by (simp add: secant_point_def)
  have g2: "g_recip (Fin 2) = Inl (Exn ZeroDivisionError ''float division by zero'')"
    by (simp add: g_recip_def fdiv_def)
  have m2: "f_sq_minus_2 (Fin 1) = Inr (Fin (- 1)) \<and> f_sq_minus_2 (Fin 2) = Inr (Fin 2)"
    by (simp add: f_sq_minus_2_def)
  note t1 = secant_zero_difference[where f = f_sq and ?x0v = "Fin (- 1)" and ?x1v = "Fin 1"
      and ?v0.0 = "Fin 1" and ?v1.0 = "Fin 1" and tol = "Fin (1 / 100)" and j = 0
      and out = "[Header, Dashes]" and maxit = 5
      and s = "secant_seeds (Fin (- 1)) (Fin 1) (Fin 1) (Fin 1)"]
  have a: "secant_body f_sq (Fin (1 / 100)) (0 + 1)
     ([Header, Dashes], secant_seeds (Fin (- 1)) (Fin 1) (Fin 1) (Fin 1)) =
     Raise ([Header, Dashes], secant_error) \<and>
   secant f_sq (Fin (- 1)) (Fin 1) (Fin (1 / 100)) 5 = ([Header, Dashes], Inl secant_error) \<and>
   secant_list f_sq (Fin (- 1)) (Fin 1) (Fin (1 / 100)) 5 = Inl secant_error"
    using t1 sq l0 by (auto simp: secant_seeds_def)
  note t2 = secant_zero_difference[where f = g_recip and ?x0v = "Fin 1" and ?x1v = "Fin 3"
      and ?v0.0 = "Fin (- 1)" and ?v1.0 = "Fin 1" and tol = "Fin (1 / 100)" and j = 0
      and rows = "[]" and maxit = 5
      and t = "secant_seeds (Fin 1) (Fin 3) (Fin (- 1)) (Fin 1)"]
  have b: "secant_list_body g_recip (Fin (1 / 100)) (0 + 1)
     ([], secant_seeds (Fin 1) (Fin 3) (Fin (- 1)) (Fin 1)) =
     Raise (Exn ZeroDivisionError ''float division by zero'')"
    using t2 gr g0 pt g2 by (auto simp: secant_seeds_def)
  note t3 = secant_zero_difference[where f = f_sq_minus_2 and ?x0v = "Fin 1" and ?x1v = "Fin 2"
      and ?v0.0 = "Fin (- 1)" and ?v1.0 = "Fin 2" and tol = "Fin (1 / 100)" and j = 1
      and rows = "[(1, Fin (4 / 3), Fin (- (2 / 9)), Fin (2 / 3), Points (Fin 1) (Fin 2))]"
      and maxit = 5 and t = window_after_one]
  have c: "map row_index [(1, Fin (4 / 3), Fin (- (2 / 9)), Fin (2 / 3), Points (Fin 1) (Fin 2))]
        = [1..1] \<and>
      (\<exists>u0 u1. f_sq_minus_2 (x0 window_after_one) = Inr u0 \<and>
            f_sq_minus_2 (x1 window_after_one) = Inr u1 \<and> \<not> feq (fsub u1 u0) (Fin 0))"
    using t3 m2 secant_list_first_pass
    by (auto simp: window_after_one_def f_sq_minus_2_def)
  show ?thesis
    using sq l0 a gr g0 pt b m2 secant_list_first_pass c by simp
qed

end
